theory Spec2Isabelle
  imports Main "HOL-Library.Char_ord" "HOL-Library.List_Lexorder" "HOL-Library.Option_ord"
begin

section \<open>Strings, sanitizers and validators\<close>

text \<open>
  The controllers of the local library (genre, author and book) validate a submitted form
  with chains of express-validator sanitizers and validators, and then read and write the
  Mongoose collections. This theory embeds the handlers of
  \<^verbatim>\<open>src/controllers/genreController.js\<close> and the name virtual of
  \<^verbatim>\<open>src/models/author.js\<close>.

  A JavaScript string is a \<^typ>\<open>string\<close>; a character stands for one UTF-16 code unit
  below 256, so that the length of the list is the length validator.js counts (no surrogate
  pair, no variation selector).

  An identity is a Mongoose ObjectId, written as \<^verbatim>\<open>toString\<close> writes it: 24 lower-case
  hexadecimal digits. Mongoose casts the string that a URL or a form carries to an
  ObjectId before it queries; a string in this canonical form is its own cast, and two
  such strings are the same identity exactly when they are equal. The handlers below take
  the identities of a request in this form, and the theorems about what a handler does
  with the identity of a request say so (\<open>canonical_oid\<close>). What the cast does with any
  other string (an error for a string that is no ObjectId, the same identity for
  upper-case digits) is not modelled.
\<close>

type_synonym oid = string

definition canonical_oid :: "string \<Rightarrow> bool" where
  "canonical_oid str \<longleftrightarrow> length str = 24 \<and> list_all (\<lambda>c. c \<in> set ''0123456789abcdef'') str"

type_synonym date = int

text \<open>
  validator.js \<^verbatim>\<open>trim(str)\<close> is \<^verbatim>\<open>rtrim(ltrim(str))\<close>; both strip the characters
  that the regular expression \<^verbatim>\<open>\s\<close> matches: tab, line feed, vertical tab, form feed,
  carriage return, space and the no-break space, among the code units below 256.
\<close>

definition is_space :: "char \<Rightarrow> bool" where
  "is_space c \<longleftrightarrow>
     c \<in> {CHR 0x09, CHR 0x0A, CHR 0x0B, CHR 0x0C, CHR 0x0D, CHR 0x20, CHR 0xA0}"

definition ltrim :: "string \<Rightarrow> string" where
  "ltrim str = dropWhile is_space str"

definition rtrim :: "string \<Rightarrow> string" where
  "rtrim str = rev (dropWhile is_space (rev str))"

definition trim :: "string \<Rightarrow> string" where
  "trim str = rtrim (ltrim str)"

text \<open>
  \<^verbatim>\<open>str.replace(/c/g, r)\<close> for a single character \<open>c\<close>, and validator.js
  \<^verbatim>\<open>escape\<close>, which chains eight such replacements, the ampersand first:
  \<^verbatim>\<open>&\<close>, \<^verbatim>\<open>"\<close>, \<^verbatim>\<open>'\<close>, \<^verbatim>\<open><\<close>, \<^verbatim>\<open>>\<close>, \<^verbatim>\<open>/\<close>, the backslash and the backquote.
\<close>

definition replace_all :: "char \<Rightarrow> string \<Rightarrow> string \<Rightarrow> string" where
  "replace_all c r str = concat (map (\<lambda>x. if x = c then r else [x]) str)"

definition escape :: "string \<Rightarrow> string" where
  "escape str =
     replace_all (CHR 0x60) ''&#96;''
      (replace_all (CHR 0x5C) ''&#x5C;''
        (replace_all (CHR 0x2F) ''&#x2F;''
          (replace_all (CHR 0x3E) ''&gt;''
            (replace_all (CHR 0x3C) ''&lt;''
              (replace_all (CHR 0x27) ''&#x27;''
                (replace_all (CHR 0x22) ''&quot;''
                  (replace_all (CHR 0x26) ''&amp;'' str)))))))"

text \<open>
  What the chain of replacements leaves for one character of the input: its entity for
  each of the eight characters, the character itself otherwise (see \<open>escape_entities\<close>).
\<close>

definition entity :: "char \<Rightarrow> string" where
  "entity c =
     (if c = CHR 0x26 then ''&amp;''
      else if c = CHR 0x22 then ''&quot;''
      else if c = CHR 0x27 then ''&#x27;''
      else if c = CHR 0x3C then ''&lt;''
      else if c = CHR 0x3E then ''&gt;''
      else if c = CHR 0x2F then ''&#x2F;''
      else if c = CHR 0x5C then ''&#x5C;''
      else if c = CHR 0x60 then ''&#96;''
      else [c])"

text \<open>\<^verbatim>\<open>isLength({ min: n })\<close>: no upper bound is given in any chain of the controllers.\<close>

definition isLength :: "nat \<Rightarrow> string \<Rightarrow> bool" where
  "isLength n str \<longleftrightarrow> n \<le> length str"

text \<open>\<^verbatim>\<open>isAlphanumeric()\<close> with the default locale: \<^verbatim>\<open>/^[0-9A-Z]+$/i\<close>.\<close>

definition is_alnum :: "char \<Rightarrow> bool" where
  "is_alnum c \<longleftrightarrow>
     c \<in> set ''0123456789ABCDEFGHIJKLMNOPQRSTUVWXYZabcdefghijklmnopqrstuvwxyz''"

definition isAlphanumeric :: "string \<Rightarrow> bool" where
  "isAlphanumeric str \<longleftrightarrow> str \<noteq> [] \<and> list_all is_alnum str"

text \<open>
  The duplicate check on create runs under the collation \<^verbatim>\<open>{ locale: 'en', strength: 2 }\<close>,
  which compares base letters and diacritics and ignores letter case. The equality of the
  collation is a parameter of \<^verbatim>\<open>genre_create_post\<close>; on strings of printable ASCII characters
  it is \<open>collation_eq\<close>, equality after folding the letters A to Z to lower case.
\<close>

definition toLower :: "char \<Rightarrow> char" where
  "toLower c =
     (case map_of (zip ''ABCDEFGHIJKLMNOPQRSTUVWXYZ'' ''abcdefghijklmnopqrstuvwxyz'') c of
        Some l \<Rightarrow> l
      | None \<Rightarrow> c)"

definition collation_eq :: "string \<Rightarrow> string \<Rightarrow> bool" where
  "collation_eq a b \<longleftrightarrow> map toLower a = map toLower b"

text \<open>An entry of \<^verbatim>\<open>validationResult(req).array()\<close>: the field's path and the message.\<close>

type_synonym verror = "string \<times> string"

section \<open>Documents and collections\<close>

record genre_doc =
  genre_id :: oid
  genre_name :: string

record author_doc =
  author_id :: oid
  first_name :: "string option"
  family_name :: "string option"
  date_of_birth :: "date option"
  date_of_death :: "date option"

record book_doc =
  book_id :: oid
  title :: string
  author :: oid
  summary :: string
  isbn :: string
  genre :: "oid list"

text \<open>The projection \<^verbatim>\<open>'title summary'\<close> of a Book query keeps the identity and two fields.\<close>

record book_projection =
  proj_id :: oid
  proj_title :: string
  proj_summary :: string

text \<open>
  A collection is the list of its documents in the store's natural order, which is the
  order \<^verbatim>\<open>findOne\<close> reads them in. The store holds the three collections the handlers use.
\<close>

record store =
  Genre :: "genre_doc list"
  Author :: "author_doc list"
  Book :: "book_doc list"

datatype error = ValidationError | DuplicateKeyError | TypeError

definition findById :: "('d \<Rightarrow> oid) \<Rightarrow> oid \<Rightarrow> 'd list \<Rightarrow> 'd option" where
  "findById idf i ds = find (\<lambda>d. idf d = i) ds"

definition findOne :: "('d \<Rightarrow> bool) \<Rightarrow> 'd list \<Rightarrow> 'd option" where
  "findOne filter_d ds = find filter_d ds"

fun findByIdAndDelete :: "('d \<Rightarrow> oid) \<Rightarrow> oid \<Rightarrow> 'd list \<Rightarrow> 'd list" where
  "findByIdAndDelete idf i [] = []"
| "findByIdAndDelete idf i (d # ds) =
     (if idf d = i then ds else d # findByIdAndDelete idf i ds)"

text \<open>
  \<^verbatim>\<open>findByIdAndUpdate(id, doc, {})\<close> writes the fields of \<open>doc\<close> over the document with
  that identity (no upsert) and returns the document as it was before, or null.
  The returned value is \<^const>\<open>findById\<close> on the collection before the update; this
  function gives the collection after it.
\<close>

fun findByIdAndUpdate :: "('d \<Rightarrow> oid) \<Rightarrow> oid \<Rightarrow> 'd \<Rightarrow> 'd list \<Rightarrow> 'd list" where
  "findByIdAndUpdate idf i upd [] = []"
| "findByIdAndUpdate idf i upd (d # ds) =
     (if idf d = i then upd # ds else d # findByIdAndUpdate idf i upd ds)"

text \<open>
  \<^verbatim>\<open>doc.save()\<close> of a new document validates it against its schema and inserts it; the
  store refuses a second document with the same identity.
\<close>

definition save :: "('d \<Rightarrow> bool) \<Rightarrow> ('d \<Rightarrow> oid) \<Rightarrow> 'd \<Rightarrow> 'd list \<Rightarrow> error + 'd list" where
  "save schema_valid idf d ds =
     (if \<not> schema_valid d then Inl ValidationError
      else if idf d \<in> set (map idf ds) then Inl DuplicateKeyError
      else Inr (ds @ [d]))"

text \<open>\<^verbatim>\<open>Book.find({ genre: id }, 'title summary')\<close> and \<^verbatim>\<open>Book.find({ author: id }, 'title summary')\<close>.\<close>

definition project :: "book_doc \<Rightarrow> book_projection" where
  "project b = \<lparr>proj_id = book_id b, proj_title = title b, proj_summary = summary b\<rparr>"

definition Book_find_genre :: "oid \<Rightarrow> book_doc list \<Rightarrow> book_projection list" where
  "Book_find_genre i bs = map project (filter (\<lambda>b. i \<in> set (genre b)) bs)"

definition Book_find_author :: "oid \<Rightarrow> book_doc list \<Rightarrow> book_projection list" where
  "Book_find_author i bs = map project (filter (\<lambda>b. author b = i) bs)"

section \<open>The Author model\<close>

text \<open>
  JavaScript truthiness of a string field that may be missing: undefined and the empty
  string are falsy.
\<close>

definition truthy :: "string option \<Rightarrow> bool" where
  "truthy v = (case v of None \<Rightarrow> False | Some str \<Rightarrow> str \<noteq> [])"

text \<open>The virtual \<^verbatim>\<open>name\<close> of \<^verbatim>\<open>src/models/author.js\<close>.\<close>

definition author_name :: "author_doc \<Rightarrow> string" where
  "author_name a =
     (if truthy (first_name a) \<and> truthy (family_name a)
      then the (family_name a) @ '', '' @ the (first_name a)
      else '''')"

definition author_url :: "author_doc \<Rightarrow> string" where
  "author_url a = ''/catalog/author/'' @ author_id a"

text \<open>
  The schema of \<^verbatim>\<open>src/models/author.js\<close>: both names are required (present and not
  empty) and at most 100 characters long.
\<close>

definition AuthorSchema_valid :: "author_doc \<Rightarrow> bool" where
  "AuthorSchema_valid a \<longleftrightarrow>
     truthy (first_name a) \<and> length (the (first_name a)) \<le> 100 \<and>
     truthy (family_name a) \<and> length (the (family_name a)) \<le> 100"

section \<open>The Genre and Book models\<close>

text \<open>
  Modelled from the spec: the schema of the Genre model (models/genre.js is not among the
  sources). The spec gives the name as a required string of 3 to 100 characters; the
  schema is applied to the value that is saved.
\<close>

definition GenreSchema_valid :: "genre_doc \<Rightarrow> bool" where
  "GenreSchema_valid g \<longleftrightarrow> 3 \<le> length (genre_name g) \<and> length (genre_name g) \<le> 100"

text \<open>
  Modelled from the spec: the URL virtual of the Genre model (models/genre.js is not among
  the sources). The spec gives the canonical URL as \<^verbatim>\<open>/catalog/<entity>/<id>\<close>, as the
  Author model's URL virtual has it.
\<close>

definition genre_url :: "genre_doc \<Rightarrow> string" where
  "genre_url g = ''/catalog/genre/'' @ genre_id g"

text \<open>
  Modelled from the spec: the schema of the Book model (models/book.js is not among the
  sources). The spec gives title, summary, isbn and the author reference as required and
  the genre references as zero or more.
\<close>

definition BookSchema_valid :: "book_doc \<Rightarrow> bool" where
  "BookSchema_valid b \<longleftrightarrow> title b \<noteq> [] \<and> author b \<noteq> [] \<and> summary b \<noteq> [] \<and> isbn b \<noteq> []"

text \<open>
  Modelled from the spec: the URL virtual of the Book model (models/book.js is not among
  the sources). The spec gives the canonical URL as \<^verbatim>\<open>/catalog/<entity>/<id>\<close>.
\<close>

definition book_url :: "book_doc \<Rightarrow> string" where
  "book_url b = ''/catalog/book/'' @ book_id b"

section \<open>Responses\<close>

text \<open>
  The view models handed to \<^verbatim>\<open>res.render\<close>, one constructor per template with the
  locals in the order the handlers write them. A handler's result is the list of the calls
  it makes on the response, in order, and the store it leaves. An exception inside
  \<^verbatim>\<open>asyncHandler\<close> is passed to \<^verbatim>\<open>next\<close>.
\<close>

datatype view =
    genre_form string genre_doc "verror list"
  | genre_delete string "genre_doc option" "book_projection list"
  | author_form string author_doc "verror list"
  | author_delete string "author_doc option" "book_projection list"
  | book_form string "author_doc list" "(genre_doc \<times> bool) list" book_doc "verror list"

datatype response = redirect string | render view | next_err error

section \<open>The genre controller\<close>

text \<open>
  The chain \<^verbatim>\<open>body('name', msg).trim().isLength({ min: 3 }).escape()\<close> of both
  \<^verbatim>\<open>genre_create_post\<close> and \<^verbatim>\<open>genre_update_post\<close>: the value of
  \<^verbatim>\<open>req.body.name\<close> after the chain, and the errors of the chain.
\<close>

definition genre_name_chain :: "string \<Rightarrow> string \<times> verror list" where
  "genre_name_chain v =
     (let trimmed = trim v;
          errors = (if isLength 3 trimmed then []
                    else [(''name'', ''Genre name must contain at least 3 characters'')])
      in (escape trimmed, errors))"

text \<open>
  \<^verbatim>\<open>genre_create_post\<close>. \<open>new_id\<close> is the identity that \<^verbatim>\<open>new Genre(...)\<close> assigns,
  \<open>collation\<close> the equality of the collation of the duplicate check.
\<close>

definition genre_create_post ::
  "(string \<Rightarrow> string \<Rightarrow> bool) \<Rightarrow> oid \<Rightarrow> string \<Rightarrow> store \<Rightarrow> response list \<times> store" where
  "genre_create_post collation new_id body_name s =
     (let (sanitized, errors) = genre_name_chain body_name;
          g = \<lparr>genre_id = new_id, genre_name = sanitized\<rparr>
      in if errors \<noteq> [] then ([render (genre_form ''Create Genre'' g errors)], s)
         else (case findOne (\<lambda>d. collation (genre_name d) sanitized) (Genre s) of
                 Some genreExists \<Rightarrow> ([redirect (genre_url genreExists)], s)
               | None \<Rightarrow>
                   (case save GenreSchema_valid genre_id g (Genre s) of
                      Inl e \<Rightarrow> ([next_err e], s)
                    | Inr gs \<Rightarrow> ([redirect (genre_url g)], s\<lparr>Genre := gs\<rparr>))))"

text \<open>
  \<^verbatim>\<open>genre_delete_get\<close>: the redirect for a missing genre is not followed by a return, so
  the render call is made as well. The result lists the calls of the handler; the response
  is sent by the first, and the error that Express raises at the second is not listed.
\<close>

definition genre_delete_get :: "oid \<Rightarrow> store \<Rightarrow> response list \<times> store" where
  "genre_delete_get params_id s =
     (let g = findById genre_id params_id (Genre s);
          allBooksInGenre = Book_find_genre params_id (Book s)
      in ((if g = None then [redirect ''/catalog/genres''] else [])
            @ [render (genre_delete ''Delete Genre'' g allBooksInGenre)], s))"

text \<open>
  \<^verbatim>\<open>genre_delete_post\<close>: the books are those of \<^verbatim>\<open>req.params.id\<close>, the deletion is of
  \<^verbatim>\<open>req.body.genreid\<close>.
\<close>

definition genre_delete_post :: "oid \<Rightarrow> oid \<Rightarrow> store \<Rightarrow> response list \<times> store" where
  "genre_delete_post params_id body_genreid s =
     (let g = findById genre_id params_id (Genre s);
          allBooksInGenre = Book_find_genre params_id (Book s)
      in if length allBooksInGenre > 0
         then ([render (genre_delete ''Delete Genre'' g allBooksInGenre)], s)
         else ([redirect ''/catalog/genres''],
               s\<lparr>Genre := findByIdAndDelete genre_id body_genreid (Genre s)\<rparr>))"

text \<open>
  \<^verbatim>\<open>genre_update_post\<close>. The duplicate check has no collation and no condition on the
  identity. \<^verbatim>\<open>updatedGenre.url\<close> is read from the value \<^verbatim>\<open>findByIdAndUpdate\<close>
  returns, which is null when no genre has the identity.
\<close>

definition genre_update_post :: "oid \<Rightarrow> string \<Rightarrow> store \<Rightarrow> response list \<times> store" where
  "genre_update_post params_id body_name s =
     (let (sanitized, errors) = genre_name_chain body_name;
          g = \<lparr>genre_id = params_id, genre_name = sanitized\<rparr>
      in if errors \<noteq> [] then ([render (genre_form ''Update Genre'' g errors)], s)
         else (case findOne (\<lambda>d. genre_name d = sanitized) (Genre s) of
                 Some genreExists \<Rightarrow> ([redirect (genre_url genreExists)], s)
               | None \<Rightarrow>
                   (case findById genre_id params_id (Genre s) of
                      None \<Rightarrow> ([next_err TypeError], s)
                    | Some updatedGenre \<Rightarrow>
                        ([redirect (genre_url updatedGenre)],
                         s\<lparr>Genre := findByIdAndUpdate genre_id params_id g (Genre s)\<rparr>))))"

section \<open>The author controller\<close>

text \<open>
  The sources hold two author controllers: a skeleton whose handlers all answer
  \<^verbatim>\<open>NOT IMPLEMENTED\<close>, and the implemented one, whose handlers are embedded here (its two
  update handlers are still that answer and are left out).

  The chains of \<^verbatim>\<open>author_create_post\<close> for the two names:
  \<^verbatim>\<open>trim().isLength({ min: 1 }).escape().withMessage(m1).isAlphanumeric().withMessage(m2)\<close>.
  The first message belongs to the length validator, the second validator reads the
  escaped value, and both validators run.
\<close>

definition name_chain :: "string \<Rightarrow> string \<Rightarrow> string \<Rightarrow> string \<Rightarrow> string \<times> verror list" where
  "name_chain field_path m1 m2 v =
     (let trimmed = trim v;
          escaped = escape trimmed
      in (escaped,
          (if isLength 1 trimmed then [] else [(field_path, m1)]) @
          (if isAlphanumeric escaped then [] else [(field_path, m2)])))"

text \<open>
  The chains for the two dates: \<^verbatim>\<open>optional({ values: 'falsy' }).isISO8601().toDate()\<close>.
  An empty value skips the chain and is stored as no date. The validator and the
  conversion of validator.js are parameters of the handler.
\<close>

definition date_chain ::
  "(string \<Rightarrow> bool) \<Rightarrow> (string \<Rightarrow> date option) \<Rightarrow> string \<Rightarrow> string \<Rightarrow> string
     \<Rightarrow> date option \<times> verror list" where
  "date_chain isISO8601 toDate field_path m v =
     (if v = [] then (None, [])
      else (toDate v, if isISO8601 v then [] else [(field_path, m)]))"

record author_body =
  body_first_name :: string
  body_family_name :: string
  body_date_of_birth :: string
  body_date_of_death :: string

text \<open>The Author document built from the sanitized body, and the errors of the four chains.\<close>

definition author_chains ::
  "(string \<Rightarrow> bool) \<Rightarrow> (string \<Rightarrow> date option) \<Rightarrow> oid \<Rightarrow> author_body
     \<Rightarrow> author_doc \<times> verror list" where
  "author_chains isISO8601 toDate the_id body =
     (let (fn, e1) = name_chain ''first_name'' ''First name must be specified.''
                       ''First name has non-alphanumeric characters.'' (body_first_name body);
          (ln, e2) = name_chain ''family_name'' ''Family name must be specified.''
                       ''Family has non-alphanumeric characters'' (body_family_name body);
          (dob, e3) = date_chain isISO8601 toDate ''date_of_birth'' ''Invalid date of birth''
                       (body_date_of_birth body);
          (dod, e4) = date_chain isISO8601 toDate ''date_of_death'' ''Invalid date of death''
                       (body_date_of_death body)
      in (\<lparr>author_id = the_id, first_name = Some fn, family_name = Some ln,
            date_of_birth = dob, date_of_death = dod\<rparr>,
          e1 @ e2 @ e3 @ e4))"

definition author_create_post ::
  "(string \<Rightarrow> bool) \<Rightarrow> (string \<Rightarrow> date option) \<Rightarrow> oid \<Rightarrow> author_body \<Rightarrow> store
     \<Rightarrow> response list \<times> store" where
  "author_create_post isISO8601 toDate new_id body s =
     (let (a, errors) = author_chains isISO8601 toDate new_id body
      in if errors \<noteq> [] then ([render (author_form ''Create Author'' a errors)], s)
         else (case save AuthorSchema_valid author_id a (Author s) of
                 Inl e \<Rightarrow> ([next_err e], s)
               | Inr as \<Rightarrow> ([redirect (author_url a)], s\<lparr>Author := as\<rparr>)))"

text \<open>\<^verbatim>\<open>author_delete_get\<close>: as for the genre, the redirect is not followed by a return.\<close>

definition author_delete_get :: "oid \<Rightarrow> store \<Rightarrow> response list \<times> store" where
  "author_delete_get params_id s =
     (let a = findById author_id params_id (Author s);
          allBooksByAuthor = Book_find_author params_id (Book s)
      in ((if a = None then [redirect ''/catalog/authors''] else [])
            @ [render (author_delete ''Delete Author'' a allBooksByAuthor)], s))"

definition author_delete_post :: "oid \<Rightarrow> oid \<Rightarrow> store \<Rightarrow> response list \<times> store" where
  "author_delete_post params_id body_authorid s =
     (let a = findById author_id params_id (Author s);
          allBooksByAuthor = Book_find_author params_id (Book s)
      in if length allBooksByAuthor > 0
         then ([render (author_delete ''Delete Author'' a allBooksByAuthor)], s)
         else ([redirect ''/catalog/authors''],
               s\<lparr>Author := findByIdAndDelete author_id body_authorid (Author s)\<rparr>))"

section \<open>The book controller\<close>

text \<open>
  The value of \<^verbatim>\<open>req.body.genre\<close> of a submitted form: missing, one string, or an array
  of strings. The first middleware of \<^verbatim>\<open>book_create_post\<close> and
  \<^verbatim>\<open>book_update_post\<close> converts it to an array.
\<close>

datatype field = undefined_field | single_value string | array_value "string list"

definition genre_to_array :: "field \<Rightarrow> string list" where
  "genre_to_array v =
     (case v of
        array_value vs \<Rightarrow> vs
      | undefined_field \<Rightarrow> []
      | single_value x \<Rightarrow> [x])"

record book_body =
  body_title :: string
  body_author :: string
  body_summary :: string
  body_isbn :: string
  body_genre :: field

text \<open>The chain \<^verbatim>\<open>body(path, m).trim().isLength({ min: 1 }).escape()\<close>.\<close>

definition required_chain :: "string \<Rightarrow> string \<Rightarrow> string \<Rightarrow> string \<times> verror list" where
  "required_chain field_path m v =
     (let trimmed = trim v
      in (escape trimmed, if isLength 1 trimmed then [] else [(field_path, m)]))"

text \<open>
  The Book document built from the sanitized body and the errors of the chains.
  \<^verbatim>\<open>body('genre.*').escape()\<close> sanitizes every entry of the array and validates nothing.
  The message of the isbn chain is a parameter: the update handler's ends in a full stop.
  The update handler tests the genre field for undefined once more when it builds the
  book; after the conversion the field is an array, so the test never holds.
\<close>

definition book_chains :: "string \<Rightarrow> oid \<Rightarrow> book_body \<Rightarrow> book_doc \<times> verror list" where
  "book_chains isbn_message the_id body =
     (let genres = genre_to_array (body_genre body);
          (t, e1) = required_chain ''title'' ''Title must not be empty.'' (body_title body);
          (a, e2) = required_chain ''author'' ''Author must not be empty.'' (body_author body);
          (su, e3) = required_chain ''summary'' ''Summary must not be empty.'' (body_summary body);
          (i, e4) = required_chain ''isbn'' isbn_message (body_isbn body)
      in (\<lparr>book_id = the_id, title = t, author = a, summary = su, isbn = i,
            genre = map escape genres\<rparr>,
          e1 @ e2 @ e3 @ e4))"

text \<open>
  The form's reference data: all authors sorted by family name, all genres sorted by
  name, each genre marked as checked when the book lists its identity.
\<close>

definition book_form_data :: "book_doc \<Rightarrow> store \<Rightarrow> author_doc list \<times> (genre_doc \<times> bool) list" where
  "book_form_data b s =
     (let allAuthors = sort_key family_name (Author s);
          allGenres = sort_key genre_name (Genre s)
      in (allAuthors, map (\<lambda>g. (g, genre_id g \<in> set (genre b))) allGenres))"

definition book_create_post :: "oid \<Rightarrow> book_body \<Rightarrow> store \<Rightarrow> response list \<times> store" where
  "book_create_post new_id body s =
     (let (b, errors) = book_chains ''ISBN must not be empty'' new_id body
      in if errors \<noteq> []
         then (let (allAuthors, allGenres) = book_form_data b s
               in ([render (book_form ''Create Book'' allAuthors allGenres b errors)], s))
         else (case save BookSchema_valid book_id b (Book s) of
                 Inl e \<Rightarrow> ([next_err e], s)
               | Inr bs \<Rightarrow> ([redirect (book_url b)], s\<lparr>Book := bs\<rparr>)))"

definition book_update_post :: "oid \<Rightarrow> book_body \<Rightarrow> store \<Rightarrow> response list \<times> store" where
  "book_update_post params_id body s =
     (let (b, errors) = book_chains ''ISBN must not be empty.'' params_id body
      in if errors \<noteq> []
         then (let (allAuthors, allGenres) = book_form_data b s
               in ([render (book_form ''Update Book'' allAuthors allGenres b errors)], s))
         else (case findById book_id params_id (Book s) of
                 None \<Rightarrow> ([next_err TypeError], s)
               | Some updatedBook \<Rightarrow>
                   ([redirect (book_url updatedBook)],
                    s\<lparr>Book := findByIdAndUpdate book_id params_id b (Book s)\<rparr>)))"

section \<open>A small library\<close>

text \<open>
  Two genres, two authors and one book, used to run the handlers. The book is by the
  first author and in the first genre; nothing refers to the second author or genre.
\<close>

definition fantasy :: genre_doc where
  "fantasy = \<lparr>genre_id = ''65f0a1b2c3d4e5f601234501'', genre_name = ''Fantasy''\<rparr>"

definition poetry :: genre_doc where
  "poetry = \<lparr>genre_id = ''65f0a1b2c3d4e5f601234502'', genre_name = ''Poetry''\<rparr>"

definition fantasy_twin :: genre_doc where
  "fantasy_twin = \<lparr>genre_id = ''65f0a1b2c3d4e5f601234503'', genre_name = ''Fantasy''\<rparr>"

definition tolkien :: author_doc where
  "tolkien = \<lparr>author_id = ''65f0a1b2c3d4e5f601234511'', first_name = Some ''John'',
     family_name = Some ''Tolkien'', date_of_birth = None, date_of_death = None\<rparr>"

definition dickinson :: author_doc where
  "dickinson = \<lparr>author_id = ''65f0a1b2c3d4e5f601234512'', first_name = Some ''Emily'',
     family_name = Some ''Dickinson'', date_of_birth = None, date_of_death = None\<rparr>"

definition hobbit :: book_doc where
  "hobbit = \<lparr>book_id = ''65f0a1b2c3d4e5f601234521'', title = ''The Hobbit'',
     author = ''65f0a1b2c3d4e5f601234511'', summary = ''There and back again'',
     isbn = ''9780261102217'', genre = [''65f0a1b2c3d4e5f601234501'']\<rparr>"

definition library :: store where
  "library = \<lparr>Genre = [fantasy, poetry], Author = [tolkien, dickinson], Book = [hobbit]\<rparr>"

text \<open>The same library after two concurrent creations of the genre Fantasy.\<close>

definition twins :: store where
  "twins = \<lparr>Genre = [fantasy, fantasy_twin], Author = [tolkien, dickinson], Book = [hobbit]\<rparr>"

text \<open>A book form without a genre field.\<close>

definition emma_form :: book_body where
  "emma_form = \<lparr>body_title = ''Emma'', body_author = ''65f0a1b2c3d4e5f601234512'',
     body_summary = ''A novel'', body_isbn = ''9780141439587'', body_genre = undefined_field\<rparr>"

text \<open>An author form, and a book form with characters that are escaped.\<close>

definition austen_form :: author_body where
  "austen_form = \<lparr>body_first_name = '' Jane '', body_family_name = ''Austen'',
     body_date_of_birth = '''', body_date_of_death = ''''\<rparr>"

definition cats_form :: book_body where
  "cats_form = \<lparr>body_title = '' Cats & <Dogs> '', body_author = ''65f0a1b2c3d4e5f601234512'',
     body_summary = ''A < B'', body_isbn = ''9780141439587'',
     body_genre = single_value ''65f0a1b2c3d4e5f601234502''\<rparr>"

section \<open>Facts about the sanitizers and the collections\<close>

lemma replace_all_Nil: "replace_all c r [] = []"
  by (simp add: replace_all_def)

lemma replace_all_Cons:
  "replace_all c r (x # xs) = (if x = c then r else [x]) @ replace_all c r xs"
  by (simp add: replace_all_def)

lemma replace_all_append:
  "replace_all c r (xs @ ys) = replace_all c r xs @ replace_all c r ys"
  by (simp add: replace_all_def)

lemma escape_Nil: "escape [] = []"
  by (simp add: escape_def replace_all_Nil)

lemma escape_Cons: "escape (x # xs) = entity x @ escape xs"
  by (simp add: escape_def entity_def replace_all_Cons replace_all_append replace_all_Nil)

text \<open>The eight replacements in a row amount to one pass that writes each character's entity.\<close>

lemma escape_entities: "escape str = concat (map entity str)"
  by (induction str) (simp_all add: escape_Cons escape_Nil)

lemma escape_append: "escape (xs @ ys) = escape xs @ escape ys"
  by (simp add: escape_entities)

lemma escape_plain: "list_all (\<lambda>c. entity c = [c]) str \<Longrightarrow> escape str = str"
  by (induction str) (simp_all add: escape_Cons escape_Nil)

lemma escape_replicate_a: "escape (replicate n CHR ''a'') = replicate n CHR ''a''"
  by (rule escape_plain) (simp add: list_all_iff entity_def)

lemma length_escape: "length str \<le> length (escape str)"
  by (induction str) (auto simp add: escape_Cons escape_Nil entity_def)

lemma ltrim_no_space: "str \<noteq> [] \<Longrightarrow> \<not> is_space (hd str) \<Longrightarrow> ltrim str = str"
  by (cases str) (simp_all add: ltrim_def)

lemma rtrim_no_space: "str \<noteq> [] \<Longrightarrow> \<not> is_space (last str) \<Longrightarrow> rtrim str = str"
  by (cases str rule: rev_cases) (simp_all add: rtrim_def)

lemma trim_no_space:
  "str \<noteq> [] \<Longrightarrow> \<not> is_space (hd str) \<Longrightarrow> \<not> is_space (last str) \<Longrightarrow> trim str = str"
  by (simp add: trim_def ltrim_no_space rtrim_no_space)

lemma findByIdAndUpdate_ids:
  "idf upd = i \<Longrightarrow> map idf (findByIdAndUpdate idf i upd ds) = map idf ds"
  by (induction ds) auto

lemma findByIdAndUpdate_others:
  "idf upd = i \<Longrightarrow>
   filter (\<lambda>d. idf d \<noteq> i) (findByIdAndUpdate idf i upd ds) = filter (\<lambda>d. idf d \<noteq> i) ds"
  by (induction ds) auto

lemma findById_after_update:
  "idf upd = i \<Longrightarrow> findById idf i ds = Some old \<Longrightarrow>
   findById idf i (findByIdAndUpdate idf i upd ds) = Some upd"
  by (induction ds) (auto simp: findById_def)

lemma findById_after_delete_other:
  "j \<noteq> i \<Longrightarrow> findById idf j (findByIdAndDelete idf i ds) = findById idf j ds"
  by (induction ds) (auto simp: findById_def)

lemma findById_after_delete_same:
  "distinct (map idf ds) \<Longrightarrow> findById idf i (findByIdAndDelete idf i ds) = None"
proof (induction ds)
  case Nil
  then show ?case by (simp add: findById_def)
next
  case (Cons d ds)
  show ?case
  proof (cases "idf d = i")
    case True
    with Cons.prems have "i \<notin> idf ` set ds" by auto
    then have "find (\<lambda>d. idf d = i) ds = None"
      by (auto simp: find_None_iff)
    with True show ?thesis by (simp add: findById_def)
  next
    case False
    with Cons show ?thesis by (simp add: findById_def)
  qed
qed

lemma genre_name_chain_eq:
  "genre_name_chain v =
     (escape (trim v),
      if 3 \<le> length (trim v) then []
      else [(''name'', ''Genre name must contain at least 3 characters'')])"
  by (simp add: genre_name_chain_def isLength_def Let_def)

lemma book_chains_fst:
  "fst (book_chains m i body) =
     \<lparr>book_id = i, title = escape (trim (body_title body)),
      author = escape (trim (body_author body)), summary = escape (trim (body_summary body)),
      isbn = escape (trim (body_isbn body)),
      genre = map escape (genre_to_array (body_genre body))\<rparr>"
  by (simp add: book_chains_def required_chain_def Let_def)

text \<open>The store a handler leaves is the store it found, or that store after its one write.\<close>

lemma genre_update_post_store:
  "snd (genre_update_post i v s) = s \<or>
   snd (genre_update_post i v s) =
     s\<lparr>Genre := findByIdAndUpdate genre_id i
                  \<lparr>genre_id = i, genre_name = escape (trim v)\<rparr> (Genre s)\<rparr>"
  by (simp add: genre_update_post_def genre_name_chain_def Let_def split: option.splits)

lemma book_update_post_store:
  "snd (book_update_post i body s) = s \<or>
   snd (book_update_post i body s) =
     s\<lparr>Book := findByIdAndUpdate book_id i
                 (fst (book_chains ''ISBN must not be empty.'' i body)) (Book s)\<rparr>"
  by (simp add: book_update_post_def Let_def split: option.splits prod.splits)

text \<open>
  A value that is alphanumeric after escaping had nothing to escape: the names of an
  accepted author form are stored as trimmed.
\<close>

lemma escape_alnum: "list_all is_alnum (escape str) \<Longrightarrow> escape str = str"
  by (induction str) (auto simp: escape_Nil escape_Cons entity_def is_alnum_def split: if_splits)

text \<open>No double quote, apostrophe or angle bracket is left in an escaped value.\<close>

lemma escape_no_raw: "set (escape str) \<inter> {CHR 0x22, CHR 0x27, CHR 0x3C, CHR 0x3E} = {}"
  by (induction str) (auto simp: escape_Nil escape_Cons entity_def)

lemma findById_id: "findById idf i ds = Some d \<Longrightarrow> idf d = i"
  by (auto simp: findById_def find_Some_iff)

lemma findByIdAndDelete_missing: "findById idf i ds = None \<Longrightarrow> findByIdAndDelete idf i ds = ds"
  by (induction ds) (auto simp: findById_def split: if_splits)

lemma author_chains_names:
  "first_name (fst (author_chains isISO8601 toDate i ab)) = Some (escape (trim (body_first_name ab))) \<and>
   family_name (fst (author_chains isISO8601 toDate i ab)) = Some (escape (trim (body_family_name ab))) \<and>
   author_id (fst (author_chains isISO8601 toDate i ab)) = i"
  by (simp add: author_chains_def name_chain_def Let_def split: prod.splits)

lemma genre_create_post_store:
  "snd (genre_create_post collation new_id v s) = s \<or>
   snd (genre_create_post collation new_id v s) =
     s\<lparr>Genre := Genre s @ [\<lparr>genre_id = new_id, genre_name = escape (trim v)\<rparr>]\<rparr>"
  by (simp add: genre_create_post_def genre_name_chain_def save_def Let_def split: option.splits)

lemma author_create_post_store:
  "snd (author_create_post isISO8601 toDate new_id ab s) = s \<or>
   snd (author_create_post isISO8601 toDate new_id ab s) =
     s\<lparr>Author := Author s @ [fst (author_chains isISO8601 toDate new_id ab)]\<rparr>"
  by (simp add: author_create_post_def save_def Let_def split: prod.splits)

lemma book_create_post_store:
  "snd (book_create_post new_id bb s) = s \<or>
   snd (book_create_post new_id bb s) =
     s\<lparr>Book := Book s @ [fst (book_chains ''ISBN must not be empty'' new_id bb)]\<rparr>"
  by (simp add: book_create_post_def save_def Let_def split: prod.splits)

lemma findOne_first:
  "ds = ys @ e # zs \<Longrightarrow> P e \<Longrightarrow> (\<forall>d \<in> set ys. \<not> P d) \<Longrightarrow> findOne P ds = Some e"
  by (induction ys arbitrary: ds) (auto simp: findOne_def)

text \<open>An accepted form is written: the conditions under which each handler stores its document.\<close>

lemma escape_eq_Nil: "escape str = [] \<longleftrightarrow> str = []"
  using length_escape [of str] by (auto simp: escape_Nil)

lemma genre_create_post_saved:
  assumes "3 \<le> length (trim v)"
    and "\<forall>d \<in> set (Genre s). \<not> collation (genre_name d) (escape (trim v))"
    and "length (escape (trim v)) \<le> 100"
    and "new_id \<notin> set (map genre_id (Genre s))"
  shows "snd (genre_create_post collation new_id v s) =
      s\<lparr>Genre := Genre s @ [\<lparr>genre_id = new_id, genre_name = escape (trim v)\<rparr>]\<rparr>"
proof -
  have none: "findOne (\<lambda>d. collation (genre_name d) (escape (trim v))) (Genre s) = None"
    using assms(2) by (auto simp: findOne_def find_None_iff)
  have "3 \<le> length (escape (trim v))"
    using assms(1) length_escape [of "trim v"] by simp
  with assms have "save GenreSchema_valid genre_id \<lparr>genre_id = new_id, genre_name = escape (trim v)\<rparr>
      (Genre s) = Inr (Genre s @ [\<lparr>genre_id = new_id, genre_name = escape (trim v)\<rparr>])"
    by (simp add: save_def GenreSchema_valid_def)
  with none assms(1) show ?thesis
    by (simp add: genre_create_post_def genre_name_chain_eq Let_def)
qed

lemma genre_update_post_replaced:
  assumes "3 \<le> length (trim v)"
    and "\<forall>d \<in> set (Genre s). genre_name d \<noteq> escape (trim v)"
    and "findById genre_id i (Genre s) \<noteq> None"
  shows "snd (genre_update_post i v s) =
      s\<lparr>Genre := findByIdAndUpdate genre_id i
                   \<lparr>genre_id = i, genre_name = escape (trim v)\<rparr> (Genre s)\<rparr>"
proof -
  have none: "findOne (\<lambda>d. genre_name d = escape (trim v)) (Genre s) = None"
    using assms(2) by (auto simp: findOne_def find_None_iff)
  from assms(3) obtain old where "findById genre_id i (Genre s) = Some old" by auto
  with none assms(1) show ?thesis
    by (simp add: genre_update_post_def genre_name_chain_eq)
qed

lemma author_chains_accepted:
  assumes "snd (author_chains isISO8601 toDate i ab) = []"
  shows "escape (trim (body_first_name ab)) \<noteq> [] \<and> escape (trim (body_family_name ab)) \<noteq> []"
  using assms
  by (auto simp: author_chains_def name_chain_def isAlphanumeric_def Let_def
      split: prod.splits if_splits)

lemma author_create_post_saved:
  assumes "snd (author_chains isISO8601 toDate new_id ab) = []"
    and "length (escape (trim (body_first_name ab))) \<le> 100"
    and "length (escape (trim (body_family_name ab))) \<le> 100"
    and "new_id \<notin> set (map author_id (Author s))"
  shows "snd (author_create_post isISO8601 toDate new_id ab s) =
      s\<lparr>Author := Author s @ [fst (author_chains isISO8601 toDate new_id ab)]\<rparr>"
proof -
  have "AuthorSchema_valid (fst (author_chains isISO8601 toDate new_id ab))"
    using author_chains_accepted [OF assms(1)] assms(2,3)
      author_chains_names [of isISO8601 toDate new_id ab]
    by (simp add: AuthorSchema_valid_def truthy_def)
  then have "save AuthorSchema_valid author_id (fst (author_chains isISO8601 toDate new_id ab))
      (Author s) = Inr (Author s @ [fst (author_chains isISO8601 toDate new_id ab)])"
    using assms(4) author_chains_names [of isISO8601 toDate new_id ab]
    by (simp add: save_def)
  with assms(1) show ?thesis
    by (cases "author_chains isISO8601 toDate new_id ab") (simp add: author_create_post_def)
qed

lemma book_chains_accepted:
  assumes "snd (book_chains m i bb) = []"
  shows "BookSchema_valid (fst (book_chains m i bb))"
proof -
  from assms have "trim (body_title bb) \<noteq> [] \<and> trim (body_author bb) \<noteq> [] \<and>
      trim (body_summary bb) \<noteq> [] \<and> trim (body_isbn bb) \<noteq> []"
    by (auto simp: book_chains_def required_chain_def isLength_def Let_def
        split: prod.splits if_splits)
  then show ?thesis
    by (simp add: book_chains_fst BookSchema_valid_def escape_eq_Nil)
qed

lemma book_create_post_saved:
  assumes "snd (book_chains ''ISBN must not be empty'' new_id bb) = []"
    and "new_id \<notin> set (map book_id (Book s))"
  shows "snd (book_create_post new_id bb s) =
      s\<lparr>Book := Book s @ [fst (book_chains ''ISBN must not be empty'' new_id bb)]\<rparr>"
proof -
  have "save BookSchema_valid book_id (fst (book_chains ''ISBN must not be empty'' new_id bb))
      (Book s) = Inr (Book s @ [fst (book_chains ''ISBN must not be empty'' new_id bb)])"
    using book_chains_accepted [OF assms(1)] assms(2)
    by (simp add: save_def book_chains_fst)
  with assms(1) show ?thesis
    by (cases "book_chains ''ISBN must not be empty'' new_id bb") (simp add: book_create_post_def)
qed

lemma book_update_post_replaced:
  assumes "snd (book_chains ''ISBN must not be empty.'' i bb) = []"
    and "findById book_id i (Book s) \<noteq> None"
  shows "snd (book_update_post i bb s) =
      s\<lparr>Book := findByIdAndUpdate book_id i
                  (fst (book_chains ''ISBN must not be empty.'' i bb)) (Book s)\<rparr>"
proof -
  from assms(2) obtain old where "findById book_id i (Book s) = Some old" by auto
  with assms(1) show ?thesis
    by (cases "book_chains ''ISBN must not be empty.'' i bb") (simp add: book_update_post_def)
qed

text \<open>The library, and the sanitizers on the strings submitted to it below.\<close>

lemmas library_defs = library_def fantasy_def poetry_def tolkien_def dickinson_def hobbit_def

lemmas twins_defs = twins_def fantasy_def fantasy_twin_def tolkien_def dickinson_def hobbit_def

lemma trim_ab: "trim '' ab '' = ''ab''"
  by (simp add: trim_def ltrim_def rtrim_def is_space_def)

lemma escape_ab: "escape ''ab'' = ''ab''"
  by (simp add: escape_Cons escape_Nil entity_def)

lemma trim_fantasy: "trim '' fantasy '' = ''fantasy''"
  by (simp add: trim_def ltrim_def rtrim_def is_space_def)

lemma escape_fantasy: "escape ''fantasy'' = ''fantasy''"
  by (simp add: escape_Cons escape_Nil entity_def)

lemma trim_rnb: "trim ''R&B'' = ''R&B''"
  by (simp add: trim_def ltrim_def rtrim_def is_space_def)

lemma escape_rnb: "escape ''R&B'' = ''R&amp;B''"
  by (simp add: escape_Cons escape_Nil entity_def)

lemma collation_fantasy: "collation_eq ''Fantasy'' ''fantasy''"
  by (simp add: collation_eq_def toLower_def)

lemma trim_Fantasy: "trim ''Fantasy'' = ''Fantasy''"
  by (simp add: trim_def ltrim_def rtrim_def is_space_def)

lemma escape_Fantasy: "escape ''Fantasy'' = ''Fantasy''"
  by (simp add: escape_Cons escape_Nil entity_def)

lemma trim_title: "trim '' Cats & <Dogs> '' = ''Cats & <Dogs>''"
  by (simp add: trim_def ltrim_def rtrim_def is_space_def)

lemma escape_title: "escape ''Cats & <Dogs>'' = ''Cats &amp; &lt;Dogs&gt;''"
  by (simp add: escape_Cons escape_Nil entity_def)

lemma trim_Verse: "trim ''Verse'' = ''Verse''"
  by (simp add: trim_def ltrim_def rtrim_def is_space_def)

lemma escape_Verse: "escape ''Verse'' = ''Verse''"
  by (simp add: escape_Cons escape_Nil entity_def)

lemma trim_emma:
  "trim ''Emma'' = ''Emma''" "trim ''65f0a1b2c3d4e5f601234512'' = ''65f0a1b2c3d4e5f601234512''"
  "trim ''A novel'' = ''A novel''" "trim ''9780141439587'' = ''9780141439587''"
  by (simp_all add: trim_def ltrim_def rtrim_def is_space_def)

lemma escape_emma:
  "escape ''Emma'' = ''Emma''" "escape ''65f0a1b2c3d4e5f601234512'' = ''65f0a1b2c3d4e5f601234512''"
  "escape ''A novel'' = ''A novel''" "escape ''9780141439587'' = ''9780141439587''"
  by (simp_all add: escape_Cons escape_Nil entity_def)

lemma book_chains_emma:
  "book_chains m i emma_form =
     (\<lparr>book_id = i, title = ''Emma'', author = ''65f0a1b2c3d4e5f601234512'',
       summary = ''A novel'', isbn = ''9780141439587'', genre = []\<rparr>, [])"
  by (simp add: book_chains_def required_chain_def emma_form_def trim_emma escape_emma
      isLength_def genre_to_array_def)

lemma canonical_ids:
  "canonical_oid (genre_id fantasy)" "canonical_oid (genre_id poetry)"
  "canonical_oid (author_id tolkien)" "canonical_oid (author_id dickinson)"
  "canonical_oid (book_id hobbit)"
  by (simp_all add: canonical_oid_def library_defs)

lemma author_chains_austen:
  "author_chains isISO toDate i austen_form =
     (\<lparr>author_id = i, first_name = Some ''Jane'', family_name = Some ''Austen'',
       date_of_birth = None, date_of_death = None\<rparr>, [])"
proof -
  have t: "trim '' Jane '' = ''Jane''" "trim ''Austen'' = ''Austen''"
    by (simp_all add: trim_def ltrim_def rtrim_def is_space_def)
  have e: "escape ''Jane'' = ''Jane''" "escape ''Austen'' = ''Austen''"
    by (simp_all add: escape_Cons escape_Nil entity_def)
  have a: "isAlphanumeric ''Jane''" "isAlphanumeric ''Austen''"
    by (simp_all add: isAlphanumeric_def is_alnum_def)
  show ?thesis
    by (simp add: author_chains_def name_chain_def date_chain_def austen_form_def t e a
        isLength_def)
qed

lemma book_chains_cats:
  "book_chains m i cats_form =
     (\<lparr>book_id = i, title = ''Cats &amp; &lt;Dogs&gt;'', author = ''65f0a1b2c3d4e5f601234512'',
       summary = ''A &lt; B'', isbn = ''9780141439587'',
       genre = [''65f0a1b2c3d4e5f601234502'']\<rparr>, [])"
proof -
  have t: "trim ''A < B'' = ''A < B''"
    by (simp add: trim_def ltrim_def rtrim_def is_space_def)
  have e: "escape ''A < B'' = ''A &lt; B''"
      "escape ''65f0a1b2c3d4e5f601234502'' = ''65f0a1b2c3d4e5f601234502''"
    by (simp_all add: escape_Cons escape_Nil entity_def)
  show ?thesis
    by (simp add: book_chains_def required_chain_def cats_form_def trim_title escape_title
        trim_emma escape_emma t e isLength_def genre_to_array_def)
qed

section \<open>The author's name\<close>

text \<open>
  C6. The full name of an author is the family name, a comma and a space, and the first
  name when both names are present and not empty; it is the empty string when either is
  missing or empty.
\<close>

theorem author_name_spec:
  "(first_name a = Some f \<and> f \<noteq> [] \<and> family_name a = Some l \<and> l \<noteq> []
      \<longrightarrow> author_name a = l @ '', '' @ f) \<and>
   (first_name a = None \<or> first_name a = Some [] \<or>
    family_name a = None \<or> family_name a = Some []
      \<longrightarrow> author_name a = [])"
  by (auto simp: author_name_def truthy_def)

theorem author_name_spec_witness:
  "author_name \<lparr>author_id = ''65f0a1b2c3d4e5f601234567'', first_name = Some ''Pat'',
      family_name = Some ''Doe'', date_of_birth = None, date_of_death = None\<rparr> = ''Doe, Pat'' \<and>
   author_name \<lparr>author_id = ''65f0a1b2c3d4e5f601234567'', first_name = Some ''Pat'',
      family_name = None, date_of_birth = None, date_of_death = None\<rparr> = [] \<and>
   author_name \<lparr>author_id = ''65f0a1b2c3d4e5f601234567'', first_name = Some [],
      family_name = Some ''Doe'', date_of_birth = None, date_of_death = None\<rparr> = []"
  using author_name_spec [of "\<lparr>author_id = ''65f0a1b2c3d4e5f601234567'', first_name = Some ''Pat'',
      family_name = Some ''Doe'', date_of_birth = None, date_of_death = None\<rparr>" "''Pat''" "''Doe''"]
    author_name_spec [of "\<lparr>author_id = ''65f0a1b2c3d4e5f601234567'', first_name = Some ''Pat'',
      family_name = None, date_of_birth = None, date_of_death = None\<rparr>" "''Pat''" "''Doe''"]
    author_name_spec [of "\<lparr>author_id = ''65f0a1b2c3d4e5f601234567'', first_name = Some [],
      family_name = Some ''Doe'', date_of_birth = None, date_of_death = None\<rparr>" "[]" "''Doe''"]
  by simp

section \<open>The genre field of a book form\<close>



section \<open>Stored text is escaped\<close>

text \<open>
  C10. A create or update handler that accepts a form (no validation error, no duplicate,
  the schema satisfied, the identity fresh on create and present on update) writes a
  document whose text fields are the submitted values trimmed and then escaped (the genre
  references of a book are escaped only), and no handler ever writes anything else.
  Escaping writes each of the characters \<^verbatim>\<open><\<close>, \<^verbatim>\<open>>\<close>, \<^verbatim>\<open>&\<close>, the
  double quote and the apostrophe as its entity, so that none of the first four is left in
  a stored value, and a stored value can differ from the submitted one.
\<close>

theorem stored_text_is_escaped:
  "(3 \<le> length (trim v) \<and>
    (\<forall>d \<in> set (Genre s). \<not> collation (genre_name d) (escape (trim v))) \<and>
    length (escape (trim v)) \<le> 100 \<and> new_id \<notin> set (map genre_id (Genre s)) \<longrightarrow>
      snd (genre_create_post collation new_id v s) =
        s\<lparr>Genre := Genre s @ [\<lparr>genre_id = new_id, genre_name = escape (trim v)\<rparr>]\<rparr>) \<and>
   (snd (genre_create_post collation new_id v s) = s \<or>
    snd (genre_create_post collation new_id v s) =
      s\<lparr>Genre := Genre s @ [\<lparr>genre_id = new_id, genre_name = escape (trim v)\<rparr>]\<rparr>) \<and>
   (3 \<le> length (trim v) \<and> (\<forall>d \<in> set (Genre s). genre_name d \<noteq> escape (trim v)) \<and>
    canonical_oid i \<and> findById genre_id i (Genre s) \<noteq> None \<longrightarrow>
      snd (genre_update_post i v s) =
        s\<lparr>Genre := findByIdAndUpdate genre_id i
                     \<lparr>genre_id = i, genre_name = escape (trim v)\<rparr> (Genre s)\<rparr>) \<and>
   (snd (genre_update_post i v s) = s \<or>
    snd (genre_update_post i v s) =
      s\<lparr>Genre := findByIdAndUpdate genre_id i
                   \<lparr>genre_id = i, genre_name = escape (trim v)\<rparr> (Genre s)\<rparr>) \<and>
   (snd (author_chains isISO toDate new_id ab) = [] \<and>
    length (escape (trim (body_first_name ab))) \<le> 100 \<and>
    length (escape (trim (body_family_name ab))) \<le> 100 \<and>
    new_id \<notin> set (map author_id (Author s)) \<longrightarrow>
      snd (author_create_post isISO toDate new_id ab s) =
        s\<lparr>Author := Author s @ [fst (author_chains isISO toDate new_id ab)]\<rparr>) \<and>
   (snd (author_create_post isISO toDate new_id ab s) = s \<or>
    snd (author_create_post isISO toDate new_id ab s) =
      s\<lparr>Author := Author s @ [fst (author_chains isISO toDate new_id ab)]\<rparr>) \<and>
   first_name (fst (author_chains isISO toDate new_id ab)) =
     Some (escape (trim (body_first_name ab))) \<and>
   family_name (fst (author_chains isISO toDate new_id ab)) =
     Some (escape (trim (body_family_name ab))) \<and>
   (snd (book_chains ''ISBN must not be empty'' new_id bb) = [] \<and>
    new_id \<notin> set (map book_id (Book s)) \<longrightarrow>
      snd (book_create_post new_id bb s) =
        s\<lparr>Book := Book s @
           [\<lparr>book_id = new_id, title = escape (trim (body_title bb)),
             author = escape (trim (body_author bb)), summary = escape (trim (body_summary bb)),
             isbn = escape (trim (body_isbn bb)),
             genre = map escape (genre_to_array (body_genre bb))\<rparr>]\<rparr>) \<and>
   (snd (book_create_post new_id bb s) = s \<or>
    snd (book_create_post new_id bb s) =
      s\<lparr>Book := Book s @
         [\<lparr>book_id = new_id, title = escape (trim (body_title bb)),
           author = escape (trim (body_author bb)), summary = escape (trim (body_summary bb)),
           isbn = escape (trim (body_isbn bb)),
           genre = map escape (genre_to_array (body_genre bb))\<rparr>]\<rparr>) \<and>
   (snd (book_chains ''ISBN must not be empty.'' i bb) = [] \<and>
    canonical_oid i \<and> findById book_id i (Book s) \<noteq> None \<longrightarrow>
      snd (book_update_post i bb s) =
        s\<lparr>Book := findByIdAndUpdate book_id i
           \<lparr>book_id = i, title = escape (trim (body_title bb)),
             author = escape (trim (body_author bb)), summary = escape (trim (body_summary bb)),
             isbn = escape (trim (body_isbn bb)),
             genre = map escape (genre_to_array (body_genre bb))\<rparr> (Book s)\<rparr>) \<and>
   (snd (book_update_post i bb s) = s \<or>
    snd (book_update_post i bb s) =
      s\<lparr>Book := findByIdAndUpdate book_id i
         \<lparr>book_id = i, title = escape (trim (body_title bb)),
           author = escape (trim (body_author bb)), summary = escape (trim (body_summary bb)),
           isbn = escape (trim (body_isbn bb)),
           genre = map escape (genre_to_array (body_genre bb))\<rparr> (Book s)\<rparr>) \<and>
   escape str = concat (map entity str) \<and>
   entity (CHR 0x3C) = ''&lt;'' \<and> entity (CHR 0x3E) = ''&gt;'' \<and> entity (CHR 0x26) = ''&amp;'' \<and>
   entity (CHR 0x22) = ''&quot;'' \<and> entity (CHR 0x27) = ''&#x27;'' \<and>
   set (escape str) \<inter> {CHR 0x22, CHR 0x27, CHR 0x3C, CHR 0x3E} = {} \<and>
   escape (trim ''R&B'') \<noteq> ''R&B''"
proof -
  let ?b1 = "\<lparr>book_id = new_id, title = escape (trim (body_title bb)),
      author = escape (trim (body_author bb)), summary = escape (trim (body_summary bb)),
      isbn = escape (trim (body_isbn bb)),
      genre = map escape (genre_to_array (body_genre bb))\<rparr>"
  let ?b2 = "\<lparr>book_id = i, title = escape (trim (body_title bb)),
      author = escape (trim (body_author bb)), summary = escape (trim (body_summary bb)),
      isbn = escape (trim (body_isbn bb)),
      genre = map escape (genre_to_array (body_genre bb))\<rparr>"
  have g1: "3 \<le> length (trim v) \<and>
      (\<forall>d \<in> set (Genre s). \<not> collation (genre_name d) (escape (trim v))) \<and>
      length (escape (trim v)) \<le> 100 \<and> new_id \<notin> set (map genre_id (Genre s)) \<longrightarrow>
      snd (genre_create_post collation new_id v s) =
        s\<lparr>Genre := Genre s @ [\<lparr>genre_id = new_id, genre_name = escape (trim v)\<rparr>]\<rparr>"
    using genre_create_post_saved [of v s collation new_id] by blast
  have g2: "3 \<le> length (trim v) \<and> (\<forall>d \<in> set (Genre s). genre_name d \<noteq> escape (trim v)) \<and>
      canonical_oid i \<and> findById genre_id i (Genre s) \<noteq> None \<longrightarrow>
      snd (genre_update_post i v s) =
        s\<lparr>Genre := findByIdAndUpdate genre_id i
                     \<lparr>genre_id = i, genre_name = escape (trim v)\<rparr> (Genre s)\<rparr>"
    using genre_update_post_replaced [of v s i] by blast
  have a1: "snd (author_chains isISO toDate new_id ab) = [] \<and>
      length (escape (trim (body_first_name ab))) \<le> 100 \<and>
      length (escape (trim (body_family_name ab))) \<le> 100 \<and>
      new_id \<notin> set (map author_id (Author s)) \<longrightarrow>
      snd (author_create_post isISO toDate new_id ab s) =
        s\<lparr>Author := Author s @ [fst (author_chains isISO toDate new_id ab)]\<rparr>"
    using author_create_post_saved [of isISO toDate new_id ab s] by blast
  have b1: "snd (book_chains ''ISBN must not be empty'' new_id bb) = [] \<and>
      new_id \<notin> set (map book_id (Book s)) \<longrightarrow>
      snd (book_create_post new_id bb s) = s\<lparr>Book := Book s @ [?b1]\<rparr>"
    using book_create_post_saved [of new_id bb s] unfolding book_chains_fst by blast
  have b2: "snd (book_create_post new_id bb s) = s \<or>
      snd (book_create_post new_id bb s) = s\<lparr>Book := Book s @ [?b1]\<rparr>"
    using book_create_post_store [of new_id bb s] unfolding book_chains_fst .
  have b3: "snd (book_chains ''ISBN must not be empty.'' i bb) = [] \<and>
      canonical_oid i \<and> findById book_id i (Book s) \<noteq> None \<longrightarrow>
      snd (book_update_post i bb s) = s\<lparr>Book := findByIdAndUpdate book_id i ?b2 (Book s)\<rparr>"
    using book_update_post_replaced [of i bb s] unfolding book_chains_fst by blast
  have b4: "snd (book_update_post i bb s) = s \<or>
      snd (book_update_post i bb s) = s\<lparr>Book := findByIdAndUpdate book_id i ?b2 (Book s)\<rparr>"
    using book_update_post_store [of i bb s] unfolding book_chains_fst .
  have n: "first_name (fst (author_chains isISO toDate new_id ab)) =
        Some (escape (trim (body_first_name ab)))"
      "family_name (fst (author_chains isISO toDate new_id ab)) =
        Some (escape (trim (body_family_name ab)))"
    using author_chains_names [of isISO toDate new_id ab] by simp_all
  have e: "entity (CHR 0x3C) = ''&lt;''" "entity (CHR 0x3E) = ''&gt;''"
      "entity (CHR 0x26) = ''&amp;''" "entity (CHR 0x22) = ''&quot;''"
      "entity (CHR 0x27) = ''&#x27;''"
    by (simp_all add: entity_def)
  have r: "escape (trim ''R&B'') \<noteq> ''R&B''"
    by (simp add: trim_rnb escape_rnb)
  show ?thesis
    by (intro conjI)
      (rule g1 g2 a1 b1 b2 b3 b4 n e r genre_create_post_store genre_update_post_store
        author_create_post_store escape_entities escape_no_raw)+
qed

theorem stored_text_is_escaped_witness:
  "snd (genre_create_post collation_eq ''65f0a1b2c3d4e5f601234599'' '' Cats & <Dogs> '' library) =
     library\<lparr>Genre := [fantasy, poetry,
        \<lparr>genre_id = ''65f0a1b2c3d4e5f601234599'', genre_name = ''Cats &amp; &lt;Dogs&gt;''\<rparr>]\<rparr> \<and>
   snd (genre_update_post (genre_id poetry) '' Cats & <Dogs> '' library) =
     library\<lparr>Genre := [fantasy,
        \<lparr>genre_id = genre_id poetry, genre_name = ''Cats &amp; &lt;Dogs&gt;''\<rparr>]\<rparr> \<and>
   snd (author_create_post (\<lambda>d. False) (\<lambda>d. None) ''65f0a1b2c3d4e5f601234599'' austen_form
          library) =
     library\<lparr>Author := [tolkien, dickinson,
        \<lparr>author_id = ''65f0a1b2c3d4e5f601234599'', first_name = Some ''Jane'',
          family_name = Some ''Austen'', date_of_birth = None, date_of_death = None\<rparr>]\<rparr> \<and>
   snd (book_create_post ''65f0a1b2c3d4e5f601234599'' cats_form library) =
     library\<lparr>Book := [hobbit,
        \<lparr>book_id = ''65f0a1b2c3d4e5f601234599'', title = ''Cats &amp; &lt;Dogs&gt;'',
          author = ''65f0a1b2c3d4e5f601234512'', summary = ''A &lt; B'',
          isbn = ''9780141439587'', genre = [''65f0a1b2c3d4e5f601234502'']\<rparr>]\<rparr> \<and>
   snd (book_update_post (book_id hobbit) cats_form library) =
     library\<lparr>Book := [\<lparr>book_id = book_id hobbit, title = ''Cats &amp; &lt;Dogs&gt;'',
          author = ''65f0a1b2c3d4e5f601234512'', summary = ''A &lt; B'',
          isbn = ''9780141439587'', genre = [''65f0a1b2c3d4e5f601234502'']\<rparr>]\<rparr>"
proof -
  note t = stored_text_is_escaped
    [where collation = collation_eq and new_id = "''65f0a1b2c3d4e5f601234599''"
       and v = "'' Cats & <Dogs> ''" and s = library and isISO = "\<lambda>d. False"
       and toDate = "\<lambda>d. None" and ab = austen_form and bb = cats_form]
  note c2 = conjunct2
  have 1: "snd (genre_create_post collation_eq ''65f0a1b2c3d4e5f601234599'' '' Cats & <Dogs> ''
        library) =
      library\<lparr>Genre := Genre library @ [\<lparr>genre_id = ''65f0a1b2c3d4e5f601234599'',
        genre_name = escape (trim '' Cats & <Dogs> '')\<rparr>]\<rparr>"
  proof (rule mp [OF t [THEN conjunct1]])
    show "3 \<le> length (trim '' Cats & <Dogs> '') \<and>
      (\<forall>d \<in> set (Genre library).
          \<not> collation_eq (genre_name d) (escape (trim '' Cats & <Dogs> ''))) \<and>
      length (escape (trim '' Cats & <Dogs> '')) \<le> 100 \<and>
      ''65f0a1b2c3d4e5f601234599'' \<notin> set (map genre_id (Genre library))"
      by (simp add: trim_title escape_title library_defs collation_eq_def toLower_def)
  qed
  have 2: "snd (genre_update_post (genre_id poetry) '' Cats & <Dogs> '' library) =
      library\<lparr>Genre := findByIdAndUpdate genre_id (genre_id poetry)
        \<lparr>genre_id = genre_id poetry, genre_name = escape (trim '' Cats & <Dogs> '')\<rparr>
        (Genre library)\<rparr>"
  proof (rule mp [OF t [THEN c2, THEN c2, THEN conjunct1]])
    show "3 \<le> length (trim '' Cats & <Dogs> '') \<and>
      (\<forall>d \<in> set (Genre library). genre_name d \<noteq> escape (trim '' Cats & <Dogs> '')) \<and>
      canonical_oid (genre_id poetry) \<and>
      findById genre_id (genre_id poetry) (Genre library) \<noteq> None"
      using canonical_ids
      by (simp add: trim_title escape_title library_defs findById_def)
  qed
  have 3: "snd (author_create_post (\<lambda>d. False) (\<lambda>d. None) ''65f0a1b2c3d4e5f601234599''
        austen_form library) =
      library\<lparr>Author := Author library @
        [fst (author_chains (\<lambda>d. False) (\<lambda>d. None) ''65f0a1b2c3d4e5f601234599'' austen_form)]\<rparr>"
  proof (rule mp [OF t [THEN c2, THEN c2, THEN c2, THEN c2, THEN conjunct1]])
    have "escape (trim '' Jane '') = ''Jane''" "escape (trim ''Austen'') = ''Austen''"
      by (simp_all add: trim_def ltrim_def rtrim_def is_space_def escape_Cons escape_Nil
          entity_def)
    then have "length (escape (trim (body_first_name austen_form))) \<le> 100"
        "length (escape (trim (body_family_name austen_form))) \<le> 100"
      by (simp_all add: austen_form_def)
    then show "snd (author_chains (\<lambda>d. False) (\<lambda>d. None) ''65f0a1b2c3d4e5f601234599''
          austen_form) = [] \<and>
      length (escape (trim (body_first_name austen_form))) \<le> 100 \<and>
      length (escape (trim (body_family_name austen_form))) \<le> 100 \<and>
      ''65f0a1b2c3d4e5f601234599'' \<notin> set (map author_id (Author library))"
      by (simp add: author_chains_austen library_defs)
  qed
  have 4: "snd (book_create_post ''65f0a1b2c3d4e5f601234599'' cats_form library) =
      library\<lparr>Book := Book library @
        [\<lparr>book_id = ''65f0a1b2c3d4e5f601234599'', title = escape (trim (body_title cats_form)),
          author = escape (trim (body_author cats_form)),
          summary = escape (trim (body_summary cats_form)),
          isbn = escape (trim (body_isbn cats_form)),
          genre = map escape (genre_to_array (body_genre cats_form))\<rparr>]\<rparr>"
  proof (rule mp [OF t [THEN c2, THEN c2, THEN c2, THEN c2, THEN c2, THEN c2, THEN c2, THEN c2,
          THEN conjunct1]])
    show "snd (book_chains ''ISBN must not be empty'' ''65f0a1b2c3d4e5f601234599'' cats_form) = [] \<and>
      ''65f0a1b2c3d4e5f601234599'' \<notin> set (map book_id (Book library))"
      by (simp add: book_chains_cats library_defs)
  qed
  have 5: "snd (book_update_post (book_id hobbit) cats_form library) =
      library\<lparr>Book := findByIdAndUpdate book_id (book_id hobbit)
        \<lparr>book_id = book_id hobbit, title = escape (trim (body_title cats_form)),
          author = escape (trim (body_author cats_form)),
          summary = escape (trim (body_summary cats_form)),
          isbn = escape (trim (body_isbn cats_form)),
          genre = map escape (genre_to_array (body_genre cats_form))\<rparr> (Book library)\<rparr>"
  proof (rule mp [OF t [THEN c2, THEN c2, THEN c2, THEN c2, THEN c2, THEN c2, THEN c2, THEN c2,
          THEN c2, THEN c2, THEN conjunct1]])
    show "snd (book_chains ''ISBN must not be empty.'' (book_id hobbit) cats_form) = [] \<and>
      canonical_oid (book_id hobbit) \<and>
      findById book_id (book_id hobbit) (Book library) \<noteq> None"
      using canonical_ids
      by (simp add: book_chains_cats library_defs findById_def)
  qed
  have b: "\<lparr>book_id = k, title = escape (trim (body_title cats_form)),
          author = escape (trim (body_author cats_form)),
          summary = escape (trim (body_summary cats_form)),
          isbn = escape (trim (body_isbn cats_form)),
          genre = map escape (genre_to_array (body_genre cats_form))\<rparr> =
      \<lparr>book_id = k, title = ''Cats &amp; &lt;Dogs&gt;'', author = ''65f0a1b2c3d4e5f601234512'',
        summary = ''A &lt; B'', isbn = ''9780141439587'',
        genre = [''65f0a1b2c3d4e5f601234502'']\<rparr>" for k
    using book_chains_fst [of "[]" k cats_form] by (simp add: book_chains_cats)
  show ?thesis
    unfolding 1 2 3 4 5 b
    by (simp add: trim_title escape_title author_chains_austen library_defs)
qed

section \<open>The length of a genre name\<close>

text \<open>
  C8, as stated: the trimmed name of a genre form is accepted exactly when it has 3 to 100
  characters, and a name outside this range gives a form with errors and no write. The
  chain has a lower bound only: a name of 101 letters passes it, and the update handler
  stores it.
\<close>

theorem genre_name_max_counterexample:
  "length (trim (replicate 101 CHR ''a'')) = 101 \<and>
   snd (genre_name_chain (replicate 101 CHR ''a'')) = [] \<and>
   genre_update_post (genre_id poetry) (replicate 101 CHR ''a'') library =
     ([redirect (genre_url poetry)],
      library\<lparr>Genre := [fantasy, \<lparr>genre_id = genre_id poetry, genre_name = replicate 101 CHR ''a''\<rparr>]\<rparr>)"
proof -
  have t: "trim (replicate 101 CHR ''a'') = replicate 101 CHR ''a''"
    by (rule trim_no_space) (simp_all add: is_space_def)
  have n: "replicate 101 CHR ''a'' \<noteq> ''Fantasy''" "replicate 101 CHR ''a'' \<noteq> ''Poetry''"
    by (auto dest: arg_cong [where f = length])
  show ?thesis
    using n
    by (simp add: t genre_name_chain_eq escape_replicate_a genre_update_post_def findOne_def
        findById_def library_defs)
qed

text \<open>
  C8, amended. The trimmed name is accepted by the chain exactly when it has at least 3
  characters; a shorter name gives a non-empty error list, and both handlers render the
  form again with the sanitized name and these errors and leave the store as it was.
\<close>

theorem genre_name_accepted_iff:
  "(snd (genre_name_chain v) = [] \<longleftrightarrow> 3 \<le> length (trim v)) \<and>
   (length (trim v) < 3 \<longrightarrow>
      snd (genre_name_chain v) \<noteq> [] \<and>
      genre_create_post collation new_id v s =
        ([render (genre_form ''Create Genre'' \<lparr>genre_id = new_id, genre_name = escape (trim v)\<rparr>
            (snd (genre_name_chain v)))], s) \<and>
      genre_update_post params_id v s =
        ([render (genre_form ''Update Genre'' \<lparr>genre_id = params_id, genre_name = escape (trim v)\<rparr>
            (snd (genre_name_chain v)))], s))"
  by (simp add: genre_name_chain_eq genre_create_post_def genre_update_post_def)

theorem genre_name_accepted_iff_witness:
  "length (trim '' ab '') < 3 \<and>
   snd (genre_name_chain '' ab '') = [(''name'', ''Genre name must contain at least 3 characters'')] \<and>
   genre_create_post collation_eq ''65f0a1b2c3d4e5f601234599'' '' ab '' library =
     ([render (genre_form ''Create Genre''
         \<lparr>genre_id = ''65f0a1b2c3d4e5f601234599'', genre_name = ''ab''\<rparr>
         [(''name'', ''Genre name must contain at least 3 characters'')])], library) \<and>
   genre_update_post (genre_id poetry) '' ab '' library =
     ([render (genre_form ''Update Genre''
         \<lparr>genre_id = genre_id poetry, genre_name = ''ab''\<rparr>
         [(''name'', ''Genre name must contain at least 3 characters'')])], library)"
  using genre_name_accepted_iff
    [where v = "'' ab ''" and collation = collation_eq
       and new_id = "''65f0a1b2c3d4e5f601234599''" and s = library
       and params_id = "genre_id poetry"]
  by (simp add: trim_ab escape_ab genre_name_chain_eq)

section \<open>Creating a genre\<close>

text \<open>
  C2, as stated: a create POST with a valid name (3 to 100 characters after trimming) and
  no genre of that name creates exactly one genre. The name below has 100 characters
  after trimming, the last an ampersand; escaped it has 104, the schema refuses it on
  save, and nothing is created.
\<close>

theorem genre_create_post_counterexample:
  "length (trim (replicate 99 CHR ''a'' @ ''&'')) = 100 \<and>
   snd (genre_name_chain (replicate 99 CHR ''a'' @ ''&'')) = [] \<and>
   Genre (library\<lparr>Genre := []\<rparr>) = [] \<and>
   genre_create_post collation_eq ''65f0a1b2c3d4e5f601234599'' (replicate 99 CHR ''a'' @ ''&'')
       (library\<lparr>Genre := []\<rparr>) =
     ([next_err ValidationError], library\<lparr>Genre := []\<rparr>)"
proof -
  have t: "trim (replicate 99 CHR ''a'' @ ''&'') = replicate 99 CHR ''a'' @ ''&''"
    by (rule trim_no_space) (simp_all add: is_space_def hd_append)
  have e: "escape (replicate 99 CHR ''a'' @ ''&'') = replicate 99 CHR ''a'' @ ''&amp;''"
    by (simp add: escape_append escape_replicate_a escape_Cons escape_Nil entity_def)
  show ?thesis
    by (simp add: t e genre_name_chain_eq genre_create_post_def findOne_def save_def
        GenreSchema_valid_def)
qed

text \<open>
  C2, amended. For a name of at least 3 characters after trimming: when some genre's
  name equals the sanitized (trimmed and escaped) name under the collation of the check,
  which ignores letter case, the handler redirects to such a genre's URL and the store is
  unchanged; when none does, the escaped name has at most 100 characters and the new
  identity is fresh, the store gains exactly one genre, with the sanitized name, and the
  handler redirects to its URL.
\<close>

theorem genre_create_post_spec:
  assumes "3 \<le> length (trim v)"
  shows "((\<exists>d \<in> set (Genre s). collation (genre_name d) (escape (trim v))) \<longrightarrow>
            (\<exists>e \<in> set (Genre s). collation (genre_name e) (escape (trim v)) \<and>
               genre_create_post collation new_id v s = ([redirect (genre_url e)], s))) \<and>
         ((\<forall>d \<in> set (Genre s). \<not> collation (genre_name d) (escape (trim v))) \<and>
          length (escape (trim v)) \<le> 100 \<and> new_id \<notin> set (map genre_id (Genre s)) \<longrightarrow>
            genre_create_post collation new_id v s =
              ([redirect (''/catalog/genre/'' @ new_id)],
               s\<lparr>Genre := Genre s @ [\<lparr>genre_id = new_id, genre_name = escape (trim v)\<rparr>]\<rparr>))"
proof (intro conjI impI)
  assume "\<exists>d \<in> set (Genre s). collation (genre_name d) (escape (trim v))"
  then obtain e where
    e: "findOne (\<lambda>d. collation (genre_name d) (escape (trim v))) (Genre s) = Some e"
    by (cases "findOne (\<lambda>d. collation (genre_name d) (escape (trim v))) (Genre s)")
      (auto simp: findOne_def find_None_iff)
  then have "e \<in> set (Genre s)" "collation (genre_name e) (escape (trim v))"
    by (auto simp: findOne_def find_Some_iff)
  moreover have "genre_create_post collation new_id v s = ([redirect (genre_url e)], s)"
    using assms e by (simp add: genre_create_post_def genre_name_chain_eq)
  ultimately show "\<exists>e \<in> set (Genre s). collation (genre_name e) (escape (trim v)) \<and>
      genre_create_post collation new_id v s = ([redirect (genre_url e)], s)"
    by blast
next
  assume a: "(\<forall>d \<in> set (Genre s). \<not> collation (genre_name d) (escape (trim v))) \<and>
    length (escape (trim v)) \<le> 100 \<and> new_id \<notin> set (map genre_id (Genre s))"
  then have none: "findOne (\<lambda>d. collation (genre_name d) (escape (trim v))) (Genre s) = None"
    by (auto simp: findOne_def find_None_iff)
  have "3 \<le> length (escape (trim v))"
    using assms length_escape [of "trim v"] by simp
  with a have "save GenreSchema_valid genre_id \<lparr>genre_id = new_id, genre_name = escape (trim v)\<rparr>
      (Genre s) = Inr (Genre s @ [\<lparr>genre_id = new_id, genre_name = escape (trim v)\<rparr>])"
    by (simp add: save_def GenreSchema_valid_def)
  with none assms show "genre_create_post collation new_id v s =
      ([redirect (''/catalog/genre/'' @ new_id)],
       s\<lparr>Genre := Genre s @ [\<lparr>genre_id = new_id, genre_name = escape (trim v)\<rparr>]\<rparr>)"
    by (simp add: genre_create_post_def genre_name_chain_eq genre_url_def)
qed

theorem genre_create_post_spec_witness:
  "3 \<le> length (trim '' fantasy '') \<and>
   genre_create_post collation_eq ''65f0a1b2c3d4e5f601234599'' '' fantasy '' library =
     ([redirect ''/catalog/genre/65f0a1b2c3d4e5f601234501''], library) \<and>
   3 \<le> length (trim ''R&B'') \<and>
   genre_create_post collation_eq ''65f0a1b2c3d4e5f601234599'' ''R&B'' library =
     ([redirect ''/catalog/genre/65f0a1b2c3d4e5f601234599''],
      library\<lparr>Genre := [fantasy, poetry,
         \<lparr>genre_id = ''65f0a1b2c3d4e5f601234599'', genre_name = ''R&amp;B''\<rparr>]\<rparr>)"
proof -
  have 1: "3 \<le> length (trim '' fantasy '')" by (simp add: trim_fantasy)
  have 2: "3 \<le> length (trim ''R&B'')" by (simp add: trim_rnb)
  have c: "\<not> collation_eq ''Poetry'' ''fantasy''" "\<not> collation_eq ''Fantasy'' ''R&amp;B''"
      "\<not> collation_eq ''Poetry'' ''R&amp;B''"
    by (simp_all add: collation_eq_def toLower_def)
  from genre_create_post_spec
    [OF 1, where s = library and collation = collation_eq
       and new_id = "''65f0a1b2c3d4e5f601234599''"]
  have "genre_create_post collation_eq ''65f0a1b2c3d4e5f601234599'' '' fantasy '' library =
     ([redirect ''/catalog/genre/65f0a1b2c3d4e5f601234501''], library)"
    using c by (simp add: trim_fantasy escape_fantasy collation_fantasy library_defs genre_url_def)
  moreover from genre_create_post_spec
    [OF 2, where s = library and collation = collation_eq
       and new_id = "''65f0a1b2c3d4e5f601234599''"]
  have "genre_create_post collation_eq ''65f0a1b2c3d4e5f601234599'' ''R&B'' library =
     ([redirect ''/catalog/genre/65f0a1b2c3d4e5f601234599''],
      library\<lparr>Genre := [fantasy, poetry,
         \<lparr>genre_id = ''65f0a1b2c3d4e5f601234599'', genre_name = ''R&amp;B''\<rparr>]\<rparr>)"
    using c by (simp add: trim_rnb escape_rnb library_defs)
  ultimately show ?thesis using 1 2 by simp
qed

section \<open>Updating a genre\<close>

text \<open>
  C3, as stated: the duplicate check of an update looks only at genres other than the one
  being updated and redirects to such a genre. The check looks at every genre: with two
  genres named Fantasy, updating the first to Fantasy redirects to the first itself, not
  to the other one.
\<close>

theorem genre_update_post_counterexample:
  "fantasy_twin \<in> set (Genre twins) \<and>
   genre_id fantasy_twin \<noteq> genre_id fantasy \<and>
   genre_name fantasy_twin = escape (trim ''Fantasy'') \<and>
   genre_update_post (genre_id fantasy) ''Fantasy'' twins = ([redirect (genre_url fantasy)], twins) \<and>
   genre_url fantasy \<noteq> genre_url fantasy_twin"
  by (simp add: trim_Fantasy escape_Fantasy genre_name_chain_eq
      genre_update_post_def findOne_def findById_def genre_url_def twins_defs)

text \<open>
  C3, amended. For a name of at least 3 characters after trimming, the duplicate check
  compares the sanitized name with the name of every stored genre, the one being updated
  included, character by character (letter case counts): when some genre has exactly
  that name the handler redirects to the first such genre in the order of the store,
  which can be the genre being updated, and the store is unchanged; when none has and a
  genre with the (canonical) URL identity exists, that genre is replaced by one with the
  same identity and the sanitized name and the handler redirects to its URL.
\<close>

theorem genre_update_post_spec:
  assumes "3 \<le> length (trim v)"
  shows "((\<exists>d \<in> set (Genre s). genre_name d = escape (trim v)) \<longrightarrow>
            (\<exists>e \<in> set (Genre s). genre_name e = escape (trim v) \<and>
               genre_update_post i v s = ([redirect (genre_url e)], s))) \<and>
         (Genre s = ys @ e # zs \<and> genre_name e = escape (trim v) \<and>
          (\<forall>d \<in> set ys. genre_name d \<noteq> escape (trim v)) \<longrightarrow>
            genre_update_post i v s = ([redirect (genre_url e)], s)) \<and>
         ((\<forall>d \<in> set (Genre s). genre_name d \<noteq> escape (trim v)) \<and>
          canonical_oid i \<and> findById genre_id i (Genre s) \<noteq> None \<longrightarrow>
            genre_update_post i v s =
              ([redirect (''/catalog/genre/'' @ i)],
               s\<lparr>Genre := findByIdAndUpdate genre_id i
                            \<lparr>genre_id = i, genre_name = escape (trim v)\<rparr> (Genre s)\<rparr>) \<and>
            findById genre_id i (Genre (snd (genre_update_post i v s))) =
              Some \<lparr>genre_id = i, genre_name = escape (trim v)\<rparr>)"
proof (intro conjI impI)
  assume "\<exists>d \<in> set (Genre s). genre_name d = escape (trim v)"
  then obtain x where x: "findOne (\<lambda>d. genre_name d = escape (trim v)) (Genre s) = Some x"
    by (cases "findOne (\<lambda>d. genre_name d = escape (trim v)) (Genre s)")
      (auto simp: findOne_def find_None_iff)
  then have "x \<in> set (Genre s)" "genre_name x = escape (trim v)"
    by (auto simp: findOne_def find_Some_iff)
  moreover have "genre_update_post i v s = ([redirect (genre_url x)], s)"
    using assms x by (simp add: genre_update_post_def genre_name_chain_eq)
  ultimately show "\<exists>e \<in> set (Genre s). genre_name e = escape (trim v) \<and>
      genre_update_post i v s = ([redirect (genre_url e)], s)"
    by blast
next
  assume a: "Genre s = ys @ e # zs \<and> genre_name e = escape (trim v) \<and>
    (\<forall>d \<in> set ys. genre_name d \<noteq> escape (trim v))"
  then have "findOne (\<lambda>d. genre_name d = escape (trim v)) (Genre s) = Some e"
    by (intro findOne_first [where ys = ys and zs = zs]) auto
  with assms show "genre_update_post i v s = ([redirect (genre_url e)], s)"
    by (simp add: genre_update_post_def genre_name_chain_eq)
next
  assume a: "(\<forall>d \<in> set (Genre s). genre_name d \<noteq> escape (trim v)) \<and>
    canonical_oid i \<and> findById genre_id i (Genre s) \<noteq> None"
  then have none: "findOne (\<lambda>d. genre_name d = escape (trim v)) (Genre s) = None"
    by (auto simp: findOne_def find_None_iff)
  from a obtain old where old: "findById genre_id i (Genre s) = Some old" by auto
  then have "genre_url old = ''/catalog/genre/'' @ i"
    using findById_id [OF old] by (simp add: genre_url_def)
  with none old assms show r: "genre_update_post i v s =
      ([redirect (''/catalog/genre/'' @ i)],
       s\<lparr>Genre := findByIdAndUpdate genre_id i
                    \<lparr>genre_id = i, genre_name = escape (trim v)\<rparr> (Genre s)\<rparr>)"
    by (simp add: genre_update_post_def genre_name_chain_eq)
  show "findById genre_id i (Genre (snd (genre_update_post i v s))) =
      Some \<lparr>genre_id = i, genre_name = escape (trim v)\<rparr>"
    using old by (simp add: r findById_after_update)
qed

theorem genre_update_post_spec_witness:
  "3 \<le> length (trim '' fantasy '') \<and>
   genre_update_post (genre_id poetry) '' fantasy '' library =
     ([redirect ''/catalog/genre/65f0a1b2c3d4e5f601234502''],
      library\<lparr>Genre := [fantasy, \<lparr>genre_id = genre_id poetry, genre_name = ''fantasy''\<rparr>]\<rparr>) \<and>
   3 \<le> length (trim ''Fantasy'') \<and>
   genre_update_post (genre_id poetry) ''Fantasy'' library =
     ([redirect ''/catalog/genre/65f0a1b2c3d4e5f601234501''], library) \<and>
   genre_update_post (genre_id fantasy) ''Fantasy'' library =
     ([redirect ''/catalog/genre/65f0a1b2c3d4e5f601234501''], library) \<and>
   genre_update_post (genre_id fantasy) ''Fantasy'' twins =
     ([redirect ''/catalog/genre/65f0a1b2c3d4e5f601234501''], twins) \<and>
   genre_update_post (genre_id fantasy_twin) ''Fantasy'' twins =
     ([redirect ''/catalog/genre/65f0a1b2c3d4e5f601234501''], twins)"
proof -
  have 1: "3 \<le> length (trim '' fantasy '')" by (simp add: trim_fantasy)
  have 2: "3 \<le> length (trim ''Fantasy'')" by (simp add: trim_Fantasy)
  from genre_update_post_spec [OF 1, where s = library and i = "genre_id poetry"]
  have a: "genre_update_post (genre_id poetry) '' fantasy '' library =
     ([redirect ''/catalog/genre/65f0a1b2c3d4e5f601234502''],
      library\<lparr>Genre := [fantasy, \<lparr>genre_id = genre_id poetry, genre_name = ''fantasy''\<rparr>]\<rparr>)"
    using canonical_ids by (simp add: trim_fantasy escape_fantasy library_defs findById_def)
  from genre_update_post_spec [OF 2, where s = library and i = "genre_id poetry"
      and ys = "[]" and e = fantasy and zs = "[poetry]"]
  have b: "genre_update_post (genre_id poetry) ''Fantasy'' library =
     ([redirect ''/catalog/genre/65f0a1b2c3d4e5f601234501''], library)"
    by (simp add: trim_Fantasy escape_Fantasy library_defs genre_url_def)
  from genre_update_post_spec [OF 2, where s = library and i = "genre_id fantasy"
      and ys = "[]" and e = fantasy and zs = "[poetry]"]
  have c: "genre_update_post (genre_id fantasy) ''Fantasy'' library =
     ([redirect ''/catalog/genre/65f0a1b2c3d4e5f601234501''], library)"
    by (simp add: trim_Fantasy escape_Fantasy library_defs genre_url_def)
  from genre_update_post_spec [OF 2, where s = twins and i = "genre_id fantasy"
      and ys = "[]" and e = fantasy and zs = "[fantasy_twin]"]
  have d: "genre_update_post (genre_id fantasy) ''Fantasy'' twins =
     ([redirect ''/catalog/genre/65f0a1b2c3d4e5f601234501''], twins)"
    by (simp add: trim_Fantasy escape_Fantasy twins_defs genre_url_def)
  from genre_update_post_spec [OF 2, where s = twins and i = "genre_id fantasy_twin"
      and ys = "[]" and e = fantasy and zs = "[fantasy_twin]"]
  have e: "genre_update_post (genre_id fantasy_twin) ''Fantasy'' twins =
     ([redirect ''/catalog/genre/65f0a1b2c3d4e5f601234501''], twins)"
    by (simp add: trim_Fantasy escape_Fantasy twins_defs genre_url_def)
  from 1 2 a b c d e show ?thesis by simp
qed

section \<open>Updates keep the identity\<close>

text \<open>
  C7. A genre update and a book update leave the identities of the collection as they
  were, document by document, and leave every document with another identity untouched:
  the replacement is built with the identity of the URL path and written over the
  document that has it.
\<close>

theorem update_preserves_identity:
  "map genre_id (Genre (snd (genre_update_post params_id body_name s))) = map genre_id (Genre s) \<and>
   filter (\<lambda>d. genre_id d \<noteq> params_id) (Genre (snd (genre_update_post params_id body_name s))) =
     filter (\<lambda>d. genre_id d \<noteq> params_id) (Genre s) \<and>
   map book_id (Book (snd (book_update_post params_id body s))) = map book_id (Book s) \<and>
   filter (\<lambda>d. book_id d \<noteq> params_id) (Book (snd (book_update_post params_id body s))) =
     filter (\<lambda>d. book_id d \<noteq> params_id) (Book s)"
proof -
  have g: "map genre_id (Genre (snd (genre_update_post params_id body_name s))) =
        map genre_id (Genre s) \<and>
      filter (\<lambda>d. genre_id d \<noteq> params_id) (Genre (snd (genre_update_post params_id body_name s))) =
        filter (\<lambda>d. genre_id d \<noteq> params_id) (Genre s)"
    using genre_update_post_store [of params_id body_name s]
    by (auto simp: findByIdAndUpdate_ids findByIdAndUpdate_others)
  have b: "map book_id (Book (snd (book_update_post params_id body s))) = map book_id (Book s) \<and>
      filter (\<lambda>d. book_id d \<noteq> params_id) (Book (snd (book_update_post params_id body s))) =
        filter (\<lambda>d. book_id d \<noteq> params_id) (Book s)"
    using book_update_post_store [of params_id body s]
    by (auto simp: book_chains_fst findByIdAndUpdate_ids findByIdAndUpdate_others)
  from g b show ?thesis by simp
qed

theorem update_preserves_identity_witness:
  "genre_update_post (genre_id poetry) ''Verse'' library =
     ([redirect ''/catalog/genre/65f0a1b2c3d4e5f601234502''],
      library\<lparr>Genre := [fantasy, \<lparr>genre_id = genre_id poetry, genre_name = ''Verse''\<rparr>]\<rparr>) \<and>
   map genre_id (Genre library) = [''65f0a1b2c3d4e5f601234501'', ''65f0a1b2c3d4e5f601234502''] \<and>
   map genre_id (Genre (snd (genre_update_post (genre_id poetry) ''Verse'' library))) =
     [''65f0a1b2c3d4e5f601234501'', ''65f0a1b2c3d4e5f601234502''] \<and>
   book_update_post (book_id hobbit) emma_form library =
     ([redirect ''/catalog/book/65f0a1b2c3d4e5f601234521''],
      library\<lparr>Book := [\<lparr>book_id = book_id hobbit, title = ''Emma'',
          author = ''65f0a1b2c3d4e5f601234512'', summary = ''A novel'',
          isbn = ''9780141439587'', genre = []\<rparr>]\<rparr>) \<and>
   map book_id (Book (snd (book_update_post (book_id hobbit) emma_form library))) =
     [''65f0a1b2c3d4e5f601234521'']"
proof -
  have g: "genre_update_post (genre_id poetry) ''Verse'' library =
     ([redirect ''/catalog/genre/65f0a1b2c3d4e5f601234502''],
      library\<lparr>Genre := [fantasy, \<lparr>genre_id = genre_id poetry, genre_name = ''Verse''\<rparr>]\<rparr>)"
    by (simp add: genre_update_post_def genre_name_chain_eq trim_Verse escape_Verse findOne_def
        findById_def genre_url_def library_defs)
  have b: "book_update_post (book_id hobbit) emma_form library =
     ([redirect ''/catalog/book/65f0a1b2c3d4e5f601234521''],
      library\<lparr>Book := [\<lparr>book_id = book_id hobbit, title = ''Emma'',
          author = ''65f0a1b2c3d4e5f601234512'', summary = ''A novel'',
          isbn = ''9780141439587'', genre = []\<rparr>]\<rparr>)"
    by (simp add: book_update_post_def book_chains_emma findById_def book_url_def library_defs)
  from update_preserves_identity
    [where params_id = "genre_id poetry" and body_name = "''Verse''" and s = library]
    update_preserves_identity
    [where params_id = "book_id hobbit" and body = emma_form and s = library]
    g b
  show ?thesis by (simp add: library_defs)
qed

section \<open>Deleting a genre or an author\<close>

text \<open>
  C9. On a delete POST for a genre or an author, with the identities of the URL path and
  of the form field in canonical form, the books that decide whether to block
  are the books that refer to the identity of the URL path, and the record removed is
  the one named by the form field (genreid, authorid). The blocked view and the decision
  do not depend on the form field; when the two identities differ, the record whose books
  were checked stays in the store and the record of the form field is the one that goes.
\<close>

theorem delete_post_checks_path_deletes_body:
  assumes "canonical_oid params_id"
  shows
  "(Book_find_genre params_id (Book s) \<noteq> [] \<longrightarrow>
      genre_delete_post params_id body_genreid s =
        ([render (genre_delete ''Delete Genre'' (findById genre_id params_id (Genre s))
            (Book_find_genre params_id (Book s)))], s)) \<and>
   (Book_find_genre params_id (Book s) = [] \<and> canonical_oid body_genreid \<longrightarrow>
      genre_delete_post params_id body_genreid s =
        ([redirect ''/catalog/genres''],
         s\<lparr>Genre := findByIdAndDelete genre_id body_genreid (Genre s)\<rparr>)) \<and>
   (canonical_oid body_genreid \<and> params_id \<noteq> body_genreid \<longrightarrow>
      findById genre_id params_id (findByIdAndDelete genre_id body_genreid (Genre s)) =
        findById genre_id params_id (Genre s)) \<and>
   (canonical_oid body_genreid \<and> distinct (map genre_id (Genre s)) \<longrightarrow>
      findById genre_id body_genreid (findByIdAndDelete genre_id body_genreid (Genre s)) = None) \<and>
   (Book_find_author params_id (Book s) \<noteq> [] \<longrightarrow>
      author_delete_post params_id body_authorid s =
        ([render (author_delete ''Delete Author'' (findById author_id params_id (Author s))
            (Book_find_author params_id (Book s)))], s)) \<and>
   (Book_find_author params_id (Book s) = [] \<and> canonical_oid body_authorid \<longrightarrow>
      author_delete_post params_id body_authorid s =
        ([redirect ''/catalog/authors''],
         s\<lparr>Author := findByIdAndDelete author_id body_authorid (Author s)\<rparr>)) \<and>
   (canonical_oid body_authorid \<and> params_id \<noteq> body_authorid \<longrightarrow>
      findById author_id params_id (findByIdAndDelete author_id body_authorid (Author s)) =
        findById author_id params_id (Author s)) \<and>
   (canonical_oid body_authorid \<and> distinct (map author_id (Author s)) \<longrightarrow>
      findById author_id body_authorid (findByIdAndDelete author_id body_authorid (Author s)) = None)"
  by (simp add: genre_delete_post_def author_delete_post_def Let_def
      findById_after_delete_other findById_after_delete_same)

theorem delete_post_checks_path_deletes_body_witness:
  "canonical_oid (genre_id poetry) \<and> canonical_oid (genre_id fantasy) \<and>
   canonical_oid (author_id dickinson) \<and> canonical_oid (author_id tolkien) \<and>
   Book_find_genre (genre_id poetry) (Book library) = [] \<and>
   Book_find_genre (genre_id fantasy) (Book library) = [project hobbit] \<and>
   genre_delete_post (genre_id poetry) (genre_id fantasy) library =
     ([redirect ''/catalog/genres''], library\<lparr>Genre := [poetry]\<rparr>) \<and>
   findById genre_id (genre_id poetry) [poetry] = Some poetry \<and>
   findById genre_id (genre_id fantasy) [poetry] = None \<and>
   Book_find_author (author_id dickinson) (Book library) = [] \<and>
   Book_find_author (author_id tolkien) (Book library) = [project hobbit] \<and>
   author_delete_post (author_id dickinson) (author_id tolkien) library =
     ([redirect ''/catalog/authors''], library\<lparr>Author := [dickinson]\<rparr>) \<and>
   findById author_id (author_id dickinson) [dickinson] = Some dickinson \<and>
   findById author_id (author_id tolkien) [dickinson] = None"
  using delete_post_checks_path_deletes_body
    [OF canonical_ids(2), where body_genreid = "genre_id fantasy"
       and s = library and body_authorid = "author_id tolkien"]
    delete_post_checks_path_deletes_body
    [OF canonical_ids(4), where body_genreid = "genre_id fantasy"
       and s = library and body_authorid = "author_id tolkien"]
    canonical_ids
  by (simp add: library_defs Book_find_genre_def Book_find_author_def findById_def)

text \<open>
  When the form field names the record of the URL path, as the delete form of the
  application submits it, the handler blocks exactly when a book refers to that record
  and removes that record otherwise.
\<close>

lemma genre_delete_post_same_identity:
  "genre_delete_post i i s =
     (if Book_find_genre i (Book s) \<noteq> []
      then ([render (genre_delete ''Delete Genre'' (findById genre_id i (Genre s))
              (Book_find_genre i (Book s)))], s)
      else ([redirect ''/catalog/genres''],
            s\<lparr>Genre := findByIdAndDelete genre_id i (Genre s)\<rparr>))"
  by (simp add: genre_delete_post_def Let_def)

lemma author_delete_post_same_identity:
  "author_delete_post i i s =
     (if Book_find_author i (Book s) \<noteq> []
      then ([render (author_delete ''Delete Author'' (findById author_id i (Author s))
              (Book_find_author i (Book s)))], s)
      else ([redirect ''/catalog/authors''],
            s\<lparr>Author := findByIdAndDelete author_id i (Author s)\<rparr>))"
  by (simp add: author_delete_post_def Let_def)

text \<open>
  C1. A delete POST on a genre or an author that a book refers to should leave the store
  unchanged and show the blocked view; with no such book it should remove the record and
  redirect to the listing. In the library, the book refers to the first genre and to the
  first author. A POST to the delete URL of the second genre (or author), which no book
  refers to, with the first one's identity in the form field removes the first genre (or
  author), the one that the book refers to, and keeps the second.
\<close>

theorem delete_post_removes_referenced:
  "Book_find_genre (genre_id fantasy) (Book library) = [project hobbit] \<and>
   genre_delete_post (genre_id poetry) (genre_id fantasy) library =
     ([redirect ''/catalog/genres''], library\<lparr>Genre := [poetry]\<rparr>) \<and>
   Book_find_author (author_id tolkien) (Book library) = [project hobbit] \<and>
   author_delete_post (author_id dickinson) (author_id tolkien) library =
     ([redirect ''/catalog/authors''], library\<lparr>Author := [dickinson]\<rparr>)"
  by (simp add: library_defs genre_delete_post_def author_delete_post_def
      Book_find_genre_def Book_find_author_def findById_def)

text \<open>
  C4. A delete request for an identity that has no record should end in a redirect to the
  listing and nothing else. On GET the handlers call the redirect and then, with no
  return in between, render the delete view with a null record: two calls on the response.
\<close>

theorem delete_get_missing_target:
  "findById genre_id ''65f0a1b2c3d4e5f601234599'' (Genre library) = None \<and>
   genre_delete_get ''65f0a1b2c3d4e5f601234599'' library =
     ([redirect ''/catalog/genres'', render (genre_delete ''Delete Genre'' None [])], library) \<and>
   findById author_id ''65f0a1b2c3d4e5f601234599'' (Author library) = None \<and>
   author_delete_get ''65f0a1b2c3d4e5f601234599'' library =
     ([redirect ''/catalog/authors'', render (author_delete ''Delete Author'' None [])], library)"
  by (simp add: library_defs genre_delete_get_def author_delete_get_def
      Book_find_genre_def Book_find_author_def findById_def)

text \<open>The same for every store and every identity without a record.\<close>

lemma genre_delete_get_missing:
  "findById genre_id i (Genre s) = None \<Longrightarrow>
   genre_delete_get i s =
     ([redirect ''/catalog/genres'',
       render (genre_delete ''Delete Genre'' None (Book_find_genre i (Book s)))], s)"
  by (simp add: genre_delete_get_def Let_def)

lemma author_delete_get_missing:
  "findById author_id i (Author s) = None \<Longrightarrow>
   author_delete_get i s =
     ([redirect ''/catalog/authors'',
       render (author_delete ''Delete Author'' None (Book_find_author i (Book s)))], s)"
  by (simp add: author_delete_get_def Let_def)

text \<open>
  On POST a missing record ends in the redirect alone when no book refers to the identity
  and the form field names it.
\<close>

lemma genre_delete_post_missing:
  "findById genre_id i (Genre s) = None \<Longrightarrow> Book_find_genre i (Book s) = [] \<Longrightarrow>
   genre_delete_post i i s = ([redirect ''/catalog/genres''], s)"
  by (simp add: genre_delete_post_def Let_def findByIdAndDelete_missing)

lemma author_delete_post_missing:
  "findById author_id i (Author s) = None \<Longrightarrow> Book_find_author i (Book s) = [] \<Longrightarrow>
   author_delete_post i i s = ([redirect ''/catalog/authors''], s)"
  by (simp add: author_delete_post_def Let_def findByIdAndDelete_missing)

end
